theory Spec2Isabelle
  imports Main
begin

section \<open>Appointment lifecycle and patient status of the clinic backend\<close>

text \<open>
  The handlers of \<^verbatim>\<open>controllers/appointmentController.js\<close>, the report handler's
  follow-up creation and the \<^verbatim>\<open>updateMissedAppointments\<close> script, as functions
  on an explicit database state. Every \<^verbatim>\<open>await Model.find...\<close> is a lookup in a list of
  documents, every \<^verbatim>\<open>save\<close> replaces the document with the same \<^verbatim>\<open>_id\<close>, every
  \<^verbatim>\<open>create\<close> appends a document with a fresh \<^verbatim>\<open>_id\<close>. Each \<^verbatim>\<open>new Date()\<close> is a
  parameter (milliseconds since the epoch). What a handler sends with \<^verbatim>\<open>res.json\<close> is the
  first component of its result. A call to a collection succeeds unless a parameter of
  the handler says that it throws; the validation that Mongoose runs on a save is modelled
  for the required paths, the enums and the casts to Date of the document saved. The timestamps \<^verbatim>\<open>createdAt\<close> and
  \<^verbatim>\<open>updatedAt\<close> are not modelled.
\<close>

subsection \<open>Documents\<close>

type_synonym oid = nat
type_synonym msec = int

text \<open>The Appointment schema. \<^verbatim>\<open>patientId\<close> is required by the schema, the handlers
  still test it for absence, so it is optional here.\<close>

record appointment =
  aid :: oid
  patientId :: "oid option"
  doctorId :: oid
  hospitalId :: oid
  date :: string
  time :: string
  appt_type :: string
  status :: string
  noShowReason :: string
  appt_notes :: "string option"
  diagnosis :: "string option"
  disease :: "string option"
  treatmentOutcome :: "string option"
  treatmentEndDate :: "msec option"
  isFollowUp :: bool
  needsTimeSlot :: bool
  reminderSent :: bool
  timeSlotConfirmed :: bool
  originalAppointmentId :: "oid option"
  relatedReportId :: "oid option"

text \<open>An entry of \<^verbatim>\<open>patient.appointments\<close>. Its date is a Date: \<^verbatim>\<open>None\<close> is
  an Invalid Date.\<close>

record pappt =
  pa_doctor :: "oid option"
  pa_date :: "msec option"
  pa_status :: string

text \<open>The Patient schema: the fields the appointment handlers read or write. The
  demographic fields (date of birth, age, gender, phone, blood group, allergies, medical
  history, emergency contact) are only copied from the request at creation and are left
  out.\<close>

record patient =
  pid :: oid
  pname :: string
  email :: string
  hospital :: "oid option"
  pstatus :: string
  treatmentDays :: int
  lastStatusChangeDate :: "msec option"
  appointments :: "pappt list"

datatype jsval = JUndef | JStr string | JId oid | JBool bool

text \<open>The Activity schema (the audit entry).\<close>

record activity =
  act_user :: "oid option"
  act_hospitalId :: "oid option"
  actorId :: "oid option"
  actorName :: "string option"
  actorRole :: "string option"
  act_patientId :: "oid option"
  action :: "string option"
  subject :: "string option"
  subjectId :: "oid option"
  act_type :: "string option"
  description :: "string option"
  details :: "string option"
  act_status :: string
  metadata :: "(string \<times> jsval) list"

record doctor =
  did :: oid
  userId :: "oid option"

text \<open>The User model: the account a doctor profile points to, and \<^verbatim>\<open>req.user\<close>.\<close>

record account =
  uid :: oid
  uname :: "string option"
  urole :: "string option"
  ustatus :: string

record report =
  rid :: oid
  reportNumber :: string
  rep_appointmentId :: oid
  followUpDate :: "msec option"
  followUpAppointmentId :: "oid option"

record db =
  appts :: "appointment list"
  patients :: "patient list"
  activities :: "activity list"
  doctors :: "doctor list"
  users :: "account list"
  reports :: "report list"
  next_oid :: oid

text \<open>Whether a call to the patient collection throws (connection lost, validation
  of an unrelated path, ...): decided by the environment.\<close>

record faults =
  patient_find_throws :: bool
  patient_save_throws :: bool

text \<open>What the handler answers: the HTTP status, and the \<^verbatim>\<open>message\<close>,
  \<^verbatim>\<open>warning\<close> and appointment of the JSON body when it has them.\<close>

record response =
  code :: nat
  message :: "string option"
  warning :: "string option"
  appt :: "appointment option"

definition reply :: "nat \<Rightarrow> string \<Rightarrow> response" where
  "reply c m = \<lparr>code = c, message = Some m, warning = None, appt = None\<rparr>"

subsection \<open>JavaScript values and Mongoose validation\<close>

text \<open>A request field is a string or absent; absent and the empty string are falsy.\<close>

definition truthy :: "string option \<Rightarrow> bool" where
  "truthy v = (case v of None \<Rightarrow> False | Some s \<Rightarrow> s \<noteq> [])"

definition js_or :: "string option \<Rightarrow> string option \<Rightarrow> string option" where
  "js_or a b = (if truthy a then a else b)"

definition js_str :: "string option \<Rightarrow> string" where
  "js_str v = (case v of None \<Rightarrow> ''undefined'' | Some s \<Rightarrow> s)"

definition js_val :: "string option \<Rightarrow> jsval" where
  "js_val v = (case v of None \<Rightarrow> JUndef | Some s \<Rightarrow> JStr s)"

definition js_id :: "oid option \<Rightarrow> jsval" where
  "js_id v = (case v of None \<Rightarrow> JUndef | Some i \<Rightarrow> JId i)"

text \<open>An \<^verbatim>\<open>enum\<close> validator of a schema path accepts an absent value.\<close>

definition enum_ok :: "string list \<Rightarrow> string option \<Rightarrow> bool" where
  "enum_ok vals v = (case v of None \<Rightarrow> True | Some s \<Rightarrow> s \<in> set vals)"

definition appointment_statuses :: "string list" where
  "appointment_statuses = [''pending'', ''confirmed'', ''cancelled'', ''completed'', ''not_appeared'']"

definition validOutcomes :: "string list" where
  "validOutcomes = [''successful'', ''partial'', ''unsuccessful'', ''ongoing'']"

definition pappt_statuses :: "string list" where
  "pappt_statuses = [''scheduled'', ''completed'', ''cancelled'']"

definition activity_actions :: "string list" where
  "activity_actions = [''appointment_created'', ''appointment_confirmed'',
     ''appointment_cancelled'', ''appointment_completed'', ''appointment_updated'',
     ''appointment_not_appeared'', ''patient_checked_in'', ''patient_completed'',
     ''patient_registered'', ''prescription_added'', ''report_generated'',
     ''report_updated'', ''staff_login'', ''doctor_login'', ''update_treatment'',
     ''expense_added'', ''expense_updated'', ''expense_deleted'']"

definition activity_types :: "string list" where
  "activity_types = [''appointment_created'', ''appointment_confirmed'',
     ''appointment_cancelled'', ''appointment_completed'', ''appointment_updated'',
     ''appointment_not_appeared'', ''patient_checked_in'', ''patient_completed'',
     ''patient_registered'', ''prescription_added'', ''report_generated'',
     ''report_updated'', ''staff_login'', ''doctor_login'',
     ''expense_added'', ''expense_updated'', ''expense_deleted'']"

definition activity_subjects :: "string list" where
  "activity_subjects = [''appointment'', ''patient'', ''prescription'', ''report'',
     ''staff'', ''doctor'', ''user'', ''expense'']"

text \<open>The validation of the Activity schema: \<^verbatim>\<open>user\<close>, \<^verbatim>\<open>action\<close>,
  \<^verbatim>\<open>subject\<close> and \<^verbatim>\<open>subjectId\<close> are required, five paths have an enum.\<close>

definition activity_valid :: "activity \<Rightarrow> bool" where
  "activity_valid x \<longleftrightarrow>
     act_user x \<noteq> None \<and>
     action x \<noteq> None \<and> enum_ok activity_actions (action x) \<and>
     subject x \<noteq> None \<and> enum_ok activity_subjects (subject x) \<and>
     subjectId x \<noteq> None \<and>
     enum_ok activity_types (act_type x) \<and>
     enum_ok [''staff'', ''doctor'', ''admin''] (actorRole x) \<and>
     act_status x \<in> set [''success'', ''warning'', ''error'']"

text \<open>The Date that a string denotes, for \<^verbatim>\<open>new Date(s)\<close> and for the cast of a
  string assigned to a Date path: \<^verbatim>\<open>None\<close> is an Invalid Date. What a string denotes is
  the engine's matter, so the function is a parameter of the handlers.\<close>

type_synonym dateparse = "string \<Rightarrow> msec option"

text \<open>A value of the request assigned to a Date path does not cast.\<close>

definition cast_fails :: "dateparse \<Rightarrow> string option \<Rightarrow> bool" where
  "cast_fails D v \<longleftrightarrow> truthy v \<and> D (the v) = None"

text \<open>The validation of an Appointment document on \<^verbatim>\<open>save\<close>: the required paths
  (a required string must not be empty; doctor and hospital are always present in the
  model) and the two enums.\<close>

definition appointment_valid :: "appointment \<Rightarrow> bool" where
  "appointment_valid a \<longleftrightarrow>
     patientId a \<noteq> None \<and> date a \<noteq> [] \<and> time a \<noteq> [] \<and> appt_type a \<noteq> [] \<and>
     status a \<in> set appointment_statuses \<and> enum_ok validOutcomes (treatmentOutcome a)"

text \<open>The validation of a Patient document on \<^verbatim>\<open>save\<close>: name and e-mail are
  required, the status and the status of every entry of \<^verbatim>\<open>appointments\<close> have an
  enum, and the date of an entry must be a valid Date.\<close>

definition pappt_valid :: "pappt \<Rightarrow> bool" where
  "pappt_valid x \<longleftrightarrow> pa_status x \<in> set pappt_statuses \<and> pa_date x \<noteq> None"

definition patient_valid :: "patient \<Rightarrow> bool" where
  "patient_valid p \<longleftrightarrow>
     pname p \<noteq> [] \<and> email p \<noteq> [] \<and> pstatus p \<in> set [''active'', ''inactive''] \<and>
     list_all pappt_valid (appointments p)"

subsection \<open>The collections\<close>

definition findAppointmentById :: "oid \<Rightarrow> db \<Rightarrow> appointment option" where
  "findAppointmentById i s = find (\<lambda>a. aid a = i) (appts s)"

definition findPatientById :: "oid \<Rightarrow> db \<Rightarrow> patient option" where
  "findPatientById i s = find (\<lambda>p. pid p = i) (patients s)"

definition findPatientByEmail :: "string \<Rightarrow> db \<Rightarrow> patient option" where
  "findPatientByEmail e s = find (\<lambda>p. email p = e) (patients s)"

definition saveAppointment :: "appointment \<Rightarrow> db \<Rightarrow> db" where
  "saveAppointment a s = s\<lparr>appts := map (\<lambda>b. if aid b = aid a then a else b) (appts s)\<rparr>"

definition savePatient :: "patient \<Rightarrow> db \<Rightarrow> db" where
  "savePatient p s = s\<lparr>patients := map (\<lambda>q. if pid q = pid p then p else q) (patients s)\<rparr>"

text \<open>\<^verbatim>\<open>ActivityService.logActivity\<close>: builds the entry with \<^verbatim>\<open>type: action\<close> and
  the default status \<^verbatim>\<open>'success'\<close>, saves it, and swallows the error of a failed save
  (\<^verbatim>\<open>return null\<close>).\<close>

definition logActivity :: "activity \<Rightarrow> db \<Rightarrow> db" where
  "logActivity x s =
     (let entry = x\<lparr>act_type := action x\<rparr>
      in if activity_valid entry then s\<lparr>activities := activities s @ [entry]\<rparr> else s)"

definition blank_activity :: activity where
  "blank_activity = \<lparr>act_user = None, act_hospitalId = None, actorId = None,
     actorName = None, actorRole = None, act_patientId = None, action = None,
     subject = None, subjectId = None, act_type = None, description = None,
     details = None, act_status = ''success'', metadata = []\<rparr>"

subsection \<open>updateTreatmentOutcome\<close>

record outcome_body =
  b_diagnosis :: "string option"
  b_disease :: "string option"
  b_treatmentOutcome :: "string option"
  b_treatmentEndDate :: "string option"

text \<open>The body sent with the appointment: the handler sends the fields \<^verbatim>\<open>_id\<close>,
  \<^verbatim>\<open>diagnosis\<close>, \<^verbatim>\<open>disease\<close>, \<^verbatim>\<open>treatmentOutcome\<close>, \<^verbatim>\<open>treatmentEndDate\<close> and
  \<^verbatim>\<open>status\<close> of the document, the model the document.\<close>

definition outcome_reply :: "string \<Rightarrow> string option \<Rightarrow> appointment \<Rightarrow> response" where
  "outcome_reply m w a = \<lparr>code = 200, message = Some m, warning = w, appt = Some a\<rparr>"

text \<open>The permission check: a doctor only on an appointment of their own profile, and
  otherwise staff or admin. \<^verbatim>\<open>None\<close> lets the request through.\<close>

definition outcome_permission :: "account \<Rightarrow> appointment \<Rightarrow> db \<Rightarrow> response option" where
  "outcome_permission u a s =
     (if urole u = Some ''doctor'' then
        (case find (\<lambda>d. userId d = Some (uid u)) (doctors s) of
           None \<Rightarrow> Some (reply 404 ''Doctor not found'')
         | Some d \<Rightarrow>
             if doctorId a \<noteq> did d
             then Some (reply 403 ''You are not authorized to update this appointment'')
             else None)
      else if urole u \<noteq> Some ''staff'' \<and> urole u \<noteq> Some ''admin''
      then Some (reply 403 ''Only doctors, staff, or admins can update treatment outcomes'')
      else None)"

text \<open>The assignments to the appointment before \<^verbatim>\<open>appointment.save()\<close>.\<close>

definition apply_outcome :: "dateparse \<Rightarrow> outcome_body \<Rightarrow> appointment \<Rightarrow> appointment" where
  "apply_outcome D b a =
     (let a1 = a\<lparr>diagnosis := js_or (b_diagnosis b) (diagnosis a),
                  disease := js_or (b_disease b) (disease a),
                  treatmentOutcome := b_treatmentOutcome b\<rparr>;
          a2 = (if truthy (b_treatmentEndDate b)
                then a1\<lparr>treatmentEndDate := D (the (b_treatmentEndDate b))\<rparr> else a1)
      in if truthy (b_treatmentOutcome b) \<and> b_treatmentOutcome b \<noteq> Some ''ongoing''
         then a2\<lparr>status := ''completed''\<rparr> else a2)"

definition ms_per_day :: int where
  "ms_per_day = 1000 * 60 * 60 * 24"

text \<open>The deactivation of the patient: \<^verbatim>\<open>Math.floor((currentDate - lastChangeDate) /
  (1000 * 60 * 60 * 24))\<close> is added to \<^verbatim>\<open>treatmentDays\<close> when the patient is active and
  has a \<^verbatim>\<open>lastStatusChangeDate\<close>. \<^verbatim>\<open>currentDate\<close> is the first \<^verbatim>\<open>new Date()\<close>, the new
  \<^verbatim>\<open>lastStatusChangeDate\<close> a second one. Integer division rounds down as
  \<^verbatim>\<open>Math.floor\<close> does; the quotient of two integers below \<^verbatim>\<open>2^53\<close> by the number of
  milliseconds of a day is far from the next integer, so the floating-point division
  rounds to the same day count.\<close>

definition deactivate :: "msec \<Rightarrow> msec \<Rightarrow> patient \<Rightarrow> patient" where
  "deactivate currentDate stamp p =
     (let p1 = (case lastStatusChangeDate p of
                  Some lastChangeDate \<Rightarrow>
                    if pstatus p = ''active''
                    then p\<lparr>treatmentDays := treatmentDays p
                            + (currentDate - lastChangeDate) div ms_per_day\<rparr>
                    else p
                | None \<Rightarrow> p)
      in p1\<lparr>pstatus := ''inactive'', lastStatusChangeDate := Some stamp\<rparr>)"

definition patient_status_activity ::
  "account \<Rightarrow> patient \<Rightarrow> string \<Rightarrow> (string \<times> jsval) list \<Rightarrow> activity" where
  "patient_status_activity u p msg md =
     blank_activity\<lparr>act_user := Some (uid u), action := Some ''update_patient_status'',
       subject := Some ''patient'', subjectId := Some (pid p), details := Some msg,
       metadata := md\<rparr>"

definition treatment_activity :: "account \<Rightarrow> appointment \<Rightarrow> outcome_body \<Rightarrow> activity" where
  "treatment_activity u a b =
     blank_activity\<lparr>act_user := Some (uid u), action := Some ''update_treatment'',
       subject := Some ''appointment'', subjectId := Some (aid a),
       details := Some (''Updated treatment outcome to '' @ js_str (b_treatmentOutcome b)),
       metadata := [(''appointmentId'', JId (aid a)), (''patientId'', js_id (patientId a)),
                    (''disease'', js_val (b_disease b)),
                    (''treatmentOutcome'', js_val (b_treatmentOutcome b))]\<rparr>"

text \<open>The end of the handler: the \<^verbatim>\<open>update_treatment\<close> entry and the plain answer.\<close>

definition outcome_finish ::
  "account \<Rightarrow> appointment \<Rightarrow> outcome_body \<Rightarrow> db \<Rightarrow> response \<times> db" where
  "outcome_finish u a b s =
     (outcome_reply ''Treatment outcome updated successfully'' None a,
      logActivity (treatment_activity u a b) s)"

definition not_found_reply :: "appointment \<Rightarrow> response" where
  "not_found_reply a =
     outcome_reply
       ''Treatment outcome updated successfully but patient record not found to update status''
       (Some ''Patient record not found - status not updated'') a"

text \<open>The answer of the \<^verbatim>\<open>catch\<close> around the patient step, which a throw of the
  lookup or of the save (its validation included) reaches; the warning ends with the
  message of the error caught, which the model leaves out.\<close>

definition sync_failed_reply :: "appointment \<Rightarrow> response" where
  "sync_failed_reply a =
     outcome_reply ''Treatment outcome updated but patient status update failed''
       (Some ''Patient status update failed: '') a"

text \<open>The branch of a \<^verbatim>\<open>successful\<close> or \<^verbatim>\<open>unsuccessful\<close> outcome, after the
  appointment was saved.\<close>

definition outcome_deactivate ::
  "faults \<Rightarrow> msec \<Rightarrow> msec \<Rightarrow> account \<Rightarrow> appointment \<Rightarrow> outcome_body \<Rightarrow> db \<Rightarrow> response \<times> db" where
  "outcome_deactivate f currentDate stamp u a b s =
     (case patientId a of
        None \<Rightarrow>
          (reply 400 ''Cannot update patient status: No patient ID associated with this appointment'', s)
      | Some i \<Rightarrow>
          if patient_find_throws f then (sync_failed_reply a, s)
          else (case findPatientById i s of
                  None \<Rightarrow> (not_found_reply a, s)
                | Some p \<Rightarrow>
                    if patient_save_throws f \<or> \<not> patient_valid (deactivate currentDate stamp p)
                    then (sync_failed_reply a, s)
                    else
                      (let p' = deactivate currentDate stamp p;
                           s1 = savePatient p' s;
                           s2 = logActivity (patient_status_activity u p'
                                  (''Patient status changed to inactive after ''
                                     @ js_str (b_treatmentOutcome b) @ '' treatment'')
                                  [(''appointmentId'', JId (aid a)),
                                   (''treatmentOutcome'', js_val (b_treatmentOutcome b)),
                                   (''previousStatus'', JStr ''active''),
                                   (''newStatus'', JStr ''inactive'')]) s1
                       in outcome_finish u a b s2)))"

text \<open>The branch of an \<^verbatim>\<open>ongoing\<close> outcome.\<close>

definition outcome_ongoing ::
  "faults \<Rightarrow> msec \<Rightarrow> account \<Rightarrow> appointment \<Rightarrow> outcome_body \<Rightarrow> db \<Rightarrow> response \<times> db" where
  "outcome_ongoing f stamp u a b s =
     (case patientId a of
        None \<Rightarrow>
          (reply 400 ''Cannot update patient status: No patient ID associated with this appointment'', s)
      | Some i \<Rightarrow>
          if patient_find_throws f then (sync_failed_reply a, s)
          else (case findPatientById i s of
                  None \<Rightarrow> (not_found_reply a, s)
                | Some p \<Rightarrow>
                    if pstatus p \<noteq> ''active'' then
                      if patient_save_throws f
                         \<or> \<not> patient_valid (p\<lparr>pstatus := ''active'', lastStatusChangeDate := Some stamp\<rparr>)
                      then (sync_failed_reply a, s)
                      else
                        (let p' = p\<lparr>pstatus := ''active'', lastStatusChangeDate := Some stamp\<rparr>;
                             s1 = savePatient p' s;
                             s2 = logActivity (patient_status_activity u p'
                                    ''Patient status changed to active for ongoing treatment''
                                    [(''appointmentId'', JId (aid a)),
                                     (''treatmentOutcome'', js_val (b_treatmentOutcome b)),
                                     (''previousStatus'', JStr ''inactive''),
                                     (''newStatus'', JStr ''active'')]) s1
                         in outcome_finish u a b s2)
                    else outcome_finish u a b s))"

text \<open>The handler. \<^verbatim>\<open>req.params.id\<close> is \<^verbatim>\<open>None\<close> when it is not a valid ObjectId. The
  appointment's \<^verbatim>\<open>save\<close> validates the document and the cast of \<^verbatim>\<open>treatmentEndDate\<close>;
  its error is caught by the handler's outer \<^verbatim>\<open>catch\<close>, and nothing is stored.\<close>

definition updateTreatmentOutcome ::
  "dateparse \<Rightarrow> faults \<Rightarrow> msec \<Rightarrow> msec \<Rightarrow> account \<Rightarrow> oid option \<Rightarrow> outcome_body \<Rightarrow> db
     \<Rightarrow> response \<times> db" where
  "updateTreatmentOutcome D f currentDate stamp u i b s =
     (case i of
        None \<Rightarrow> (reply 400 ''Invalid appointment ID'', s)
      | Some k \<Rightarrow>
          (case findAppointmentById k s of
             None \<Rightarrow> (reply 404 ''Appointment not found'', s)
           | Some a \<Rightarrow>
               (case outcome_permission u a s of
                  Some r \<Rightarrow> (r, s)
                | None \<Rightarrow>
                    if truthy (b_treatmentOutcome b)
                       \<and> \<not> enum_ok validOutcomes (b_treatmentOutcome b)
                    then (reply 400
                      ''Invalid treatment outcome. Must be one of: successful, partial, unsuccessful, ongoing'', s)
                    else
                      (let a' = apply_outcome D b a
                       in if cast_fails D (b_treatmentEndDate b) \<or> \<not> appointment_valid a'
                          then (reply 500 ''Server error while updating treatment outcome'', s)
                          else
                            (let s1 = saveAppointment a' s
                             in if b_treatmentOutcome b = Some ''successful''
                                   \<or> b_treatmentOutcome b = Some ''unsuccessful''
                                then outcome_deactivate f currentDate stamp u a' b s1
                                else if b_treatmentOutcome b = Some ''ongoing''
                                then outcome_ongoing f stamp u a' b s1
                                else outcome_finish u a' b s1)))))"

subsection \<open>updateAppointmentStatus\<close>

definition or_default :: "string option \<Rightarrow> string \<Rightarrow> string" where
  "or_default v d = (case v of None \<Rightarrow> d | Some x \<Rightarrow> if x = [] then d else x)"

text \<open>\<^verbatim>\<open>findIndex\<close> and the assignment to the element found: the first element that
  satisfies the test is changed.\<close>

fun update_first :: "('a \<Rightarrow> bool) \<Rightarrow> ('a \<Rightarrow> 'a) \<Rightarrow> 'a list \<Rightarrow> 'a list" where
  "update_first P g [] = []"
| "update_first P g (x # xs) = (if P x then g x # xs else x # update_first P g xs)"

text \<open>The update of \<^verbatim>\<open>patient.appointments\<close>: the entry of the appointment's doctor
  gets the status (\<^verbatim>\<open>'scheduled'\<close> for \<^verbatim>\<open>'confirmed'\<close>), or a new entry is pushed with
  the date \<^verbatim>\<open>new Date(updatedAppointment.date)\<close>.\<close>

definition sync_appointments ::
  "dateparse \<Rightarrow> string \<Rightarrow> appointment \<Rightarrow> pappt list \<Rightarrow> pappt list" where
  "sync_appointments D st a xs =
     (let v = (if st = ''confirmed'' then ''scheduled'' else st)
      in if find (\<lambda>x. pa_doctor x = Some (doctorId a)) xs \<noteq> None
         then update_first (\<lambda>x. pa_doctor x = Some (doctorId a)) (\<lambda>x. x\<lparr>pa_status := v\<rparr>) xs
         else xs @ [\<lparr>pa_doctor = Some (doctorId a), pa_date = D (date a), pa_status = v\<rparr>])"

definition status_action :: "string \<Rightarrow> string" where
  "status_action st =
     (if st = ''confirmed'' then ''appointment_confirmed''
      else if st = ''cancelled'' then ''appointment_cancelled''
      else if st = ''completed'' then ''appointment_completed''
      else if st = ''not_appeared'' then ''appointment_not_appeared''
      else ''appointment_updated'')"

text \<open>The audit entry of the status update. \<^verbatim>\<open>previousStatus\<close> is read from
  \<^verbatim>\<open>updatedAppointment\<close>, the document that \<^verbatim>\<open>findByIdAndUpdate\<close> returned with
  \<^verbatim>\<open>new: true\<close>.\<close>

definition status_activity :: "account \<Rightarrow> appointment \<Rightarrow> string \<Rightarrow> bool \<Rightarrow> activity" where
  "status_activity u updatedAppointment st patientStatusChanged =
     blank_activity\<lparr>act_user := Some (uid u),
       act_hospitalId := Some (hospitalId updatedAppointment),
       actorId := Some (uid u),
       actorName := Some (or_default (uname u) ''User''),
       actorRole := Some (or_default (urole u) ''user''),
       act_patientId := patientId updatedAppointment,
       action := Some (status_action st),
       subject := Some ''appointment'',
       subjectId := Some (aid updatedAppointment),
       description := Some (''Appointment '' @ st @ '' by '' @ or_default (urole u) ''user''),
       metadata := [(''appointmentId'', JId (aid updatedAppointment)),
                    (''previousStatus'', JStr (status updatedAppointment)),
                    (''newStatus'', JStr st),
                    (''patientStatusChanged'', JBool patientStatusChanged)]\<rparr>"

text \<open>The \<^verbatim>\<open>try\<close> block on the patient record. It returns the database and
  \<^verbatim>\<open>patientStatusChanged\<close>, which is set before the save. The save validates the
  patient document; a throw anywhere in the block is caught and only logged to the
  console.\<close>

definition status_sync ::
  "dateparse \<Rightarrow> faults \<Rightarrow> msec \<Rightarrow> account \<Rightarrow> string \<Rightarrow> appointment \<Rightarrow> db \<Rightarrow> db \<times> bool" where
  "status_sync D f now u st a s =
     (case patientId a of
        None \<Rightarrow> (s, False)
      | Some i \<Rightarrow>
          if patient_find_throws f then (s, False)
          else (case findPatientById i s of
                  None \<Rightarrow> (s, False)
                | Some p \<Rightarrow>
                    (let changed = (st = ''confirmed'' \<and> pstatus p = ''inactive'');
                         p1 = (if changed
                               then p\<lparr>pstatus := ''active'', lastStatusChangeDate := Some now\<rparr>
                               else p);
                         p2 = p1\<lparr>appointments := sync_appointments D st a (appointments p1)\<rparr>
                     in if patient_save_throws f \<or> \<not> patient_valid p2
                        then (s, changed)
                        else
                          (let s1 = savePatient p2 s
                           in if changed
                              then (logActivity (patient_status_activity u p2
                                      ''Patient status changed to active due to confirmed appointment''
                                      [(''appointmentId'', JId (aid a)),
                                       (''previousStatus'', JStr ''inactive''),
                                       (''newStatus'', JStr ''active'')]) s1, changed)
                              else (s1, changed)))))"

record status_body =
  b_status :: string
  b_noShowReason :: "string option"

text \<open>The handler. Its own \<^verbatim>\<open>catch\<close> answers every throw, the 404 of a missing
  appointment included, with status 500. The status of the request is a string;
  \<^verbatim>\<open>findByIdAndUpdate\<close> runs the validators of the paths it sets, so a status outside
  the enum throws. \<^verbatim>\<open>checkInTime\<close> and \<^verbatim>\<open>consultationStartTime\<close> are
  not paths of the schema: reading them gives \<^verbatim>\<open>undefined\<close> and the update drops them, so
  they are left out. The answer is the updated document itself.\<close>

definition updateAppointmentStatus ::
  "dateparse \<Rightarrow> faults \<Rightarrow> msec \<Rightarrow> account \<Rightarrow> oid option \<Rightarrow> status_body \<Rightarrow> db
     \<Rightarrow> response \<times> db" where
  "updateAppointmentStatus D f now u i b s =
     (case i of
        None \<Rightarrow> (reply 500 ''Error updating appointment status: Cast to ObjectId failed'', s)
      | Some k \<Rightarrow>
          (case findAppointmentById k s of
             None \<Rightarrow> (reply 500 ''Error updating appointment status: Appointment not found'', s)
           | Some a \<Rightarrow>
               if b_status b \<notin> set appointment_statuses
               then (reply 500 ''Error updating appointment status: Validation failed'', s)
               else
                 (let st = b_status b;
                      a1 = a\<lparr>status := st\<rparr>;
                      updatedAppointment =
                        (if st = ''not_appeared'' \<and> truthy (b_noShowReason b)
                         then a1\<lparr>noShowReason := the (b_noShowReason b)\<rparr> else a1);
                      s1 = saveAppointment updatedAppointment s;
                      (s2, patientStatusChanged) = status_sync D f now u st updatedAppointment s1;
                      s3 = logActivity (status_activity u updatedAppointment st patientStatusChanged) s2
                  in (\<lparr>code = 200, message = None, warning = None,
                       appt = Some updatedAppointment\<rparr>, s3))))"

subsection \<open>bookAppointment\<close>

record pdetails =
  pd_name :: "string option"
  pd_email :: "string option"

record booking_body =
  bk_doctorId :: "oid option"
  bk_patientDetails :: "pdetails option"
  bk_hospitalId :: "oid option"
  bk_date :: "string option"
  bk_time :: "string option"
  bk_type :: "string option"
  bk_notes :: "string option"

text \<open>Every \<^verbatim>\<open>throw\<close> of the handler is inside its \<^verbatim>\<open>try\<close>, whose \<^verbatim>\<open>catch\<close> sets
  \<^verbatim>\<open>res.status(error.status || 500)\<close> and throws the message again; an \<^verbatim>\<open>Error\<close> has no
  \<^verbatim>\<open>status\<close>, and the error middleware of \<^verbatim>\<open>server.js\<close> keeps a status other than 200,
  so the answer is the message with status 500.\<close>

definition book_error :: "string \<Rightarrow> response" where
  "book_error m = reply 500 m"

text \<open>\<^verbatim>\<open>Doctor.findById(doctorId).populate('userId', ...)\<close> and the test on the account.\<close>

definition doctor_available :: "doctor \<Rightarrow> db \<Rightarrow> bool" where
  "doctor_available d s =
     (case userId d of
        None \<Rightarrow> False
      | Some k \<Rightarrow> (case find (\<lambda>x. uid x = k) (users s) of
                    None \<Rightarrow> False
                  | Some acc \<Rightarrow> ustatus acc = ''active''))"

text \<open>The query of the slot check: an appointment of the doctor at the date and time
  whose status is not \<^verbatim>\<open>'cancelled'\<close>.\<close>

definition occupies :: "oid \<Rightarrow> string \<Rightarrow> string \<Rightarrow> appointment \<Rightarrow> bool" where
  "occupies d dt tm a \<longleftrightarrow>
     doctorId a = d \<and> date a = dt \<and> time a = tm \<and> status a \<noteq> ''cancelled''"

text \<open>A new Appointment document: the schema's defaults for the paths not given.\<close>

definition new_appointment ::
  "oid \<Rightarrow> oid \<Rightarrow> oid \<Rightarrow> oid \<Rightarrow> string \<Rightarrow> string \<Rightarrow> string \<Rightarrow> string \<Rightarrow> appointment" where
  "new_appointment k d p h dt tm ty nt =
     \<lparr>aid = k, patientId = Some p, doctorId = d, hospitalId = h, date = dt, time = tm,
      appt_type = ty, status = ''pending'', noShowReason = [], appt_notes = Some nt,
      diagnosis = None, disease = None, treatmentOutcome = Some ''ongoing'',
      treatmentEndDate = None, isFollowUp = False, needsTimeSlot = False,
      reminderSent = False, timeSlotConfirmed = False, originalAppointmentId = None,
      relatedReportId = None\<rparr>"

definition createAppointmentDoc :: "appointment \<Rightarrow> db \<Rightarrow> db" where
  "createAppointmentDoc a s = s\<lparr>appts := appts s @ [a], next_oid := Suc (next_oid s)\<rparr>"

definition createPatientDoc :: "patient \<Rightarrow> db \<Rightarrow> db" where
  "createPatientDoc p s = s\<lparr>patients := patients s @ [p], next_oid := Suc (next_oid s)\<rparr>"

text \<open>Find or create the patient, and the activation of an inactive one. The result is
  the patient document in hand, the database and \<^verbatim>\<open>patientStatusChanged\<close>, or the
  message of the error that \<^verbatim>\<open>Patient.create\<close> or \<^verbatim>\<open>patient.save()\<close> throws when the
  document fails the validation.\<close>

definition book_patient ::
  "msec \<Rightarrow> string \<Rightarrow> string \<Rightarrow> oid \<Rightarrow> db \<Rightarrow> string + patient \<times> db \<times> bool" where
  "book_patient now nm em h s =
     (case findPatientByEmail em s of
        None \<Rightarrow>
          (let p = \<lparr>pid = next_oid s, pname = nm, email = em, hospital = Some h,
                    pstatus = ''active'', treatmentDays = 0,
                    lastStatusChangeDate = Some now, appointments = []\<rparr>
           in if \<not> patient_valid p then Inl ''Patient validation failed''
              else Inr (p, createPatientDoc p s, False))
      | Some p \<Rightarrow>
          if pstatus p = ''inactive'' then
            (let p1 = p\<lparr>pstatus := ''active'', lastStatusChangeDate := Some now\<rparr>;
                 p2 = (if hospital p1 = None then p1\<lparr>hospital := Some h\<rparr> else p1)
             in if \<not> patient_valid p2 then Inl ''Patient validation failed''
                else Inr (p2, savePatient p2 s, True))
          else Inr (p, s, False))"

definition booked_activity ::
  "account option \<Rightarrow> booking_body \<Rightarrow> patient \<Rightarrow> appointment \<Rightarrow> bool \<Rightarrow> activity" where
  "booked_activity u b p a patientStatusChanged =
     blank_activity\<lparr>act_user := map_option uid u,
       act_hospitalId := bk_hospitalId b,
       actorId := map_option uid u,
       actorName := Some (or_default (Option.bind u uname) ''User''),
       actorRole := Some (or_default (Option.bind u urole) ''user''),
       act_patientId := Some (pid p),
       action := Some ''appointment_booked'',
       subject := Some ''appointment'',
       subjectId := Some (aid a),
       description := Some ''Appointment booked for patient'',
       metadata := [(''appointmentDate'', js_val (bk_date b)),
                    (''doctorId'', js_id (bk_doctorId b)),
                    (''type'', js_val (bk_type b)),
                    (''patientStatusChanged'', JBool patientStatusChanged)]\<rparr>"

definition booked_status_activity ::
  "account option \<Rightarrow> booking_body \<Rightarrow> patient \<Rightarrow> appointment \<Rightarrow> activity" where
  "booked_status_activity u b p a =
     blank_activity\<lparr>act_user := map_option uid u,
       act_hospitalId := bk_hospitalId b,
       actorId := map_option uid u,
       actorName := Some (or_default (Option.bind u uname) ''User''),
       actorRole := Some (or_default (Option.bind u urole) ''user''),
       act_patientId := Some (pid p),
       action := Some ''update_patient_status'',
       subject := Some ''patient'',
       subjectId := Some (pid p),
       description := Some ''Patient status changed to active due to new appointment booking'',
       metadata := [(''appointmentId'', JId (aid a)),
                    (''previousStatus'', JStr ''inactive''),
                    (''newStatus'', JStr ''active'')]\<rparr>"

text \<open>The handler, after the two validations of the request and the two of the doctor:
  the patient is found or created first, the slot is checked second. After the
  appointment is created, the entry with \<^verbatim>\<open>new Date(date)\<close> is pushed to the patient
  and the patient is saved; when that save fails its validation the appointment stays
  created and the answer is the error. The e-mail to the patient is outside the model.\<close>

definition book_slot ::
  "dateparse \<Rightarrow> msec \<Rightarrow> account option \<Rightarrow> booking_body \<Rightarrow> oid \<Rightarrow> oid \<Rightarrow> string \<Rightarrow> string
     \<Rightarrow> string \<Rightarrow> string \<Rightarrow> db \<Rightarrow> response \<times> db" where
  "book_slot D now u b d h dt tm nm em s =
     (case book_patient now nm em h s of
        Inl m \<Rightarrow> (book_error m, s)
      | Inr (patient, s1, patientStatusChanged) \<Rightarrow>
          if find (occupies d dt tm) (appts s1) \<noteq> None
          then (book_error ''This time slot is already booked'', s1)
          else
            (let appointment = new_appointment (next_oid s1) d (pid patient) h dt tm
                                 (or_default (bk_type b) ''consultation'')
                                 (or_default (bk_notes b) [])
             in if \<not> appointment_valid appointment
                then (book_error ''Appointment validation failed'', s1)
                else
                  (let s2 = createAppointmentDoc appointment s1;
                       patient' = patient\<lparr>appointments := appointments patient
                                    @ [\<lparr>pa_doctor = Some d, pa_date = D dt,
                                        pa_status = ''scheduled''\<rparr>]\<rparr>
                   in if \<not> patient_valid patient'
                      then (book_error ''Patient validation failed'', s2)
                      else
                        (let s3 = savePatient patient' s2;
                             s4 = logActivity (booked_activity u b patient appointment
                                                 patientStatusChanged) s3;
                             s5 = (if patientStatusChanged
                                   then logActivity (booked_status_activity u b patient appointment) s4
                                   else s4)
                         in (\<lparr>code = 201, message = None, warning = None,
                              appt = Some appointment\<rparr>, s5)))))"

definition bookAppointment ::
  "dateparse \<Rightarrow> msec \<Rightarrow> account option \<Rightarrow> booking_body \<Rightarrow> db \<Rightarrow> response \<times> db" where
  "bookAppointment D now u b s =
     (case (bk_doctorId b, bk_hospitalId b, bk_patientDetails b) of
        (Some d, Some h, Some pd) \<Rightarrow>
          if \<not> truthy (bk_date b) \<or> \<not> truthy (bk_time b)
          then (book_error ''Please provide all required fields'', s)
          else if \<not> truthy (pd_name pd) \<or> \<not> truthy (pd_email pd)
          then (book_error ''Patient name and email are required'', s)
          else (case find (\<lambda>x. did x = d) (doctors s) of
                  None \<Rightarrow> (book_error ''Doctor not found'', s)
                | Some doc \<Rightarrow>
                    if \<not> doctor_available doc s
                    then (book_error ''Selected doctor is not available for appointments'', s)
                    else book_slot D now u b d h (the (bk_date b)) (the (bk_time b))
                           (the (pd_name pd)) (the (pd_email pd)) s)
      | _ \<Rightarrow> (book_error ''Please provide all required fields'', s))"

text \<open>The request passes the checks that precede the patient and the slot: the
  required fields, the patient's name and e-mail, the doctor and the doctor's
  account.\<close>

definition passes_validation :: "booking_body \<Rightarrow> db \<Rightarrow> bool" where
  "passes_validation b s =
     (case (bk_doctorId b, bk_hospitalId b, bk_patientDetails b) of
        (Some d, Some h, Some pd) \<Rightarrow>
          truthy (bk_date b) \<and> truthy (bk_time b) \<and> truthy (pd_name pd) \<and> truthy (pd_email pd)
          \<and> (case find (\<lambda>x. did x = d) (doctors s) of
                None \<Rightarrow> False
              | Some doc \<Rightarrow> doctor_available doc s)
      | _ \<Rightarrow> False)"


text \<open>The invariant of the slots: no two appointments that are not cancelled have the
  same doctor, date and time.\<close>

fun unique_slots :: "appointment list \<Rightarrow> bool" where
  "unique_slots [] = True"
| "unique_slots (a # as) =
     ((status a = ''cancelled'' \<or> find (occupies (doctorId a) (date a) (time a)) as = None)
      \<and> unique_slots as)"

subsection \<open>createAppointment, confirmAppointment, checkInPatient\<close>

record create_body =
  cb_patientId :: "oid option"
  cb_doctorId :: "oid option"
  cb_hospitalId :: "oid option"
  cb_date :: "string option"
  cb_time :: "string option"
  cb_type :: "string option"
  cb_status :: "string option"
  cb_notes :: "string option"

text \<open>\<^verbatim>\<open>new Appointment(req.body)\<close> for a body with these paths: a path that the body
  omits gets the schema's default, which is \<^verbatim>\<open>'pending'\<close> for the status. A required
  string that is absent fails the validation as the empty one does.\<close>

definition body_appointment :: "oid \<Rightarrow> oid \<Rightarrow> oid \<Rightarrow> oid \<Rightarrow> create_body \<Rightarrow> appointment" where
  "body_appointment k p d h b =
     (new_appointment k d p h (or_default (cb_date b) []) (or_default (cb_time b) [])
        (or_default (cb_type b) []) [])
       \<lparr>status := (case cb_status b of None \<Rightarrow> ''pending'' | Some x \<Rightarrow> x),
        appt_notes := cb_notes b\<rparr>"

text \<open>The activation of the patient in \<^verbatim>\<open>createAppointment\<close> and
  \<^verbatim>\<open>confirmAppointment\<close>: \<^verbatim>\<open>patientStatusChanged\<close> is set after the save, and a throw
  is caught and only logged.\<close>

definition activate_patient :: "faults \<Rightarrow> msec \<Rightarrow> oid \<Rightarrow> db \<Rightarrow> db \<times> bool" where
  "activate_patient f now i s =
     (if patient_find_throws f then (s, False)
      else (case findPatientById i s of
              None \<Rightarrow> (s, False)
            | Some p \<Rightarrow>
                if pstatus p = ''inactive'' then
                  (let p' = p\<lparr>pstatus := ''active'', lastStatusChangeDate := Some now\<rparr>
                   in if patient_save_throws f \<or> \<not> patient_valid p' then (s, False)
                      else (savePatient p' s, True))
                else (s, False)))"

definition created_activity :: "account \<Rightarrow> create_body \<Rightarrow> appointment \<Rightarrow> activity" where
  "created_activity u b a =
     blank_activity\<lparr>act_user := Some (uid u), act_hospitalId := cb_hospitalId b,
       actorId := Some (uid u), actorName := Some (or_default (uname u) ''User''),
       actorRole := Some (or_default (urole u) ''user''), act_patientId := cb_patientId b,
       action := Some ''appointment_created'', subject := Some ''appointment'',
       subjectId := Some (aid a), description := Some ''Appointment created for patient'',
       metadata := [(''appointmentDate'', js_val (cb_date b)),
                    (''doctorId'', js_id (cb_doctorId b)), (''type'', js_val (cb_type b))]\<rparr>"

text \<open>\<^verbatim>\<open>createAppointment\<close>: the document of the request body is saved with no query
  of the slot; a failed validation is answered by the \<^verbatim>\<open>catch\<close> with status 400. The
  branch on \<^verbatim>\<open>req.body.patientDetails\<close> is taken only when the body has no
  \<^verbatim>\<open>patientId\<close>, for which the save has thrown, so it is not modelled.\<close>

definition createAppointment ::
  "faults \<Rightarrow> msec \<Rightarrow> account \<Rightarrow> create_body \<Rightarrow> db \<Rightarrow> response \<times> db" where
  "createAppointment f now u b s =
     (case (cb_patientId b, cb_doctorId b, cb_hospitalId b) of
        (Some p, Some d, Some h) \<Rightarrow>
          (let appointment = body_appointment (next_oid s) p d h b
           in if \<not> appointment_valid appointment
              then (reply 400 ''Appointment validation failed'', s)
              else
                (let s1 = createAppointmentDoc appointment s;
                     (s2, patientStatusChanged) = activate_patient f now p s1;
                     s3 = logActivity (created_activity u b appointment) s2
                 in (\<lparr>code = 201,
                      message = Some (if patientStatusChanged
                         then ''Appointment created successfully and patient status changed to active''
                         else ''Appointment created successfully''),
                      warning = None, appt = Some appointment\<rparr>, s3)))
      | _ \<Rightarrow> (reply 400 ''Appointment validation failed'', s))"

definition confirmed_activity :: "account \<Rightarrow> appointment \<Rightarrow> bool \<Rightarrow> activity" where
  "confirmed_activity u a patientStatusChanged =
     blank_activity\<lparr>act_user := Some (uid u), act_hospitalId := Some (hospitalId a),
       actorId := Some (uid u), actorName := Some (or_default (uname u) ''User''),
       actorRole := Some (or_default (urole u) ''user''), act_patientId := patientId a,
       action := Some ''appointment_confirmed'', subject := Some ''appointment'',
       subjectId := Some (aid a),
       description := Some (''Appointment confirmed by '' @ or_default (uname u) ''User''),
       metadata := [(''patientStatusChanged'', JBool patientStatusChanged)]\<rparr>"

text \<open>\<^verbatim>\<open>confirmAppointment\<close>: \<^verbatim>\<open>findByIdAndUpdate\<close> without validators. For an id that
  finds nothing the handler answers \<^verbatim>\<open>null\<close>: the patient step is skipped and the
  throw of the audit step is caught.\<close>

definition confirmAppointment ::
  "faults \<Rightarrow> msec \<Rightarrow> account \<Rightarrow> oid option \<Rightarrow> db \<Rightarrow> response \<times> db" where
  "confirmAppointment f now u i s =
     (case i of
        None \<Rightarrow> (reply 400 ''Cast to ObjectId failed'', s)
      | Some k \<Rightarrow>
          (case findAppointmentById k s of
             None \<Rightarrow> (\<lparr>code = 200, message = None, warning = None, appt = None\<rparr>, s)
           | Some a \<Rightarrow>
               (let appointment = a\<lparr>status := ''confirmed''\<rparr>;
                    s1 = saveAppointment appointment s;
                    (s2, patientStatusChanged) =
                       (case patientId appointment of
                          None \<Rightarrow> (s1, False)
                        | Some p \<Rightarrow> activate_patient f now p s1);
                    s3 = logActivity (confirmed_activity u appointment patientStatusChanged) s2
                in (\<lparr>code = 200, message = None, warning = None,
                     appt = Some appointment\<rparr>, s3))))"

definition checkedIn_activity :: "account \<Rightarrow> appointment \<Rightarrow> activity" where
  "checkedIn_activity u a =
     blank_activity\<lparr>act_user := Some (uid u), act_hospitalId := Some (hospitalId a),
       actorId := Some (uid u), actorName := Some (or_default (uname u) ''Staff''),
       actorRole := Some (or_default (urole u) ''staff''), act_patientId := patientId a,
       action := Some ''patient_checked_in'', subject := Some ''appointment'',
       subjectId := Some (aid a),
       description := Some ''Patient checked in for appointment'',
       metadata := [(''appointmentDate'', JStr (date a)), (''appointmentTime'', JStr (time a)),
                    (''checkInTime'', JUndef)]\<rparr>"

text \<open>\<^verbatim>\<open>checkInPatient\<close>: a pending appointment becomes confirmed. \<^verbatim>\<open>checkInTime\<close> is
  no path of the schema, so its assignment is dropped. The handler has no \<^verbatim>\<open>catch\<close> of
  its own: the error middleware keeps the status 400 or 404 that was set, and answers a
  throw of \<^verbatim>\<open>appointment.save()\<close> with 500. The patient is only looked up, inside the
  \<^verbatim>\<open>try\<close> of the audit entry.\<close>

definition checkInPatient ::
  "faults \<Rightarrow> account \<Rightarrow> oid option \<Rightarrow> db \<Rightarrow> response \<times> db" where
  "checkInPatient f u i s =
     (case i of
        None \<Rightarrow> (reply 400 ''Invalid appointment ID'', s)
      | Some k \<Rightarrow>
          (case findAppointmentById k s of
             None \<Rightarrow> (reply 404 ''Appointment not found'', s)
           | Some a \<Rightarrow>
               (let appointment = (if status a = ''pending'' then a\<lparr>status := ''confirmed''\<rparr> else a)
                in if \<not> appointment_valid appointment
                   then (reply 500 ''Appointment validation failed'', s)
                   else
                     (let s1 = saveAppointment appointment s;
                          s2 = (if patient_find_throws f then s1
                                else logActivity (checkedIn_activity u appointment) s1)
                      in (\<lparr>code = 200, message = None, warning = None,
                           appt = Some appointment\<rparr>, s2)))))"

subsection \<open>createReport: the appointment side\<close>

record report_body =
  rb_appointmentId :: "oid option"
  rb_patientId :: "oid option"
  rb_doctorId :: "oid option"
  rb_hospitalId :: "oid option"
  rb_diagnosis :: "string option"
  rb_prescription :: "string option"
  rb_notes :: "string option"
  rb_followUpDate :: "string option"
  rb_type :: "string option"
  rb_reportNumber :: "string option"

text \<open>\<^verbatim>\<open>Activity.create\<close>, called directly: a document that fails the validation
  throws (\<^verbatim>\<open>None\<close>).\<close>

definition createActivity :: "activity \<Rightarrow> db \<Rightarrow> db option" where
  "createActivity x s =
     (if activity_valid x then Some (s\<lparr>activities := activities s @ [x]\<rparr>) else None)"

text \<open>The follow-up appointment: pending, at the placeholder time \<^verbatim>\<open>"00:00"\<close>, with
  \<^verbatim>\<open>needsTimeSlot\<close>; no query of the slot precedes its creation.\<close>

definition followUp_appointment ::
  "oid \<Rightarrow> oid \<Rightarrow> oid \<Rightarrow> oid \<Rightarrow> string \<Rightarrow> string \<Rightarrow> string option \<Rightarrow> oid \<Rightarrow> oid \<Rightarrow> appointment" where
  "followUp_appointment k d p h followUp number nts orig rep =
     (new_appointment k d p h followUp ''00:00'' ''followup''
        (''Follow-up for report #'' @ number @ ''. '' @ or_default nts []))
       \<lparr>isFollowUp := True, originalAppointmentId := Some orig,
        relatedReportId := Some rep, needsTimeSlot := True\<rparr>"

definition report_activity ::
  "account \<Rightarrow> string \<Rightarrow> string \<Rightarrow> oid \<Rightarrow> oid \<Rightarrow> oid \<Rightarrow> activity" where
  "report_activity u act subj sid h p =
     blank_activity\<lparr>act_user := Some (uid u), act_hospitalId := Some h,
       actorId := Some (uid u), actorName := Some (or_default (uname u) ''Unknown''),
       actorRole := Some (or_default (urole u) ''staff''), act_patientId := Some p,
       action := Some act, subject := Some subj, subjectId := Some sid\<rparr>"

definition report_types :: "string list" where
  "report_types = [''lab'', ''diagnosis'', ''prescription'', ''invoice'']"

text \<open>The handler up to its answer, on the reports, appointments and activities. An id
  of the request is \<^verbatim>\<open>None\<close> when it is absent; the test of its format is not
  modelled. The report document keeps the fields the follow-up needs; its \<^verbatim>\<open>save\<close>
  validates the enum of \<^verbatim>\<open>type\<close> and casts \<^verbatim>\<open>followUpDate\<close> to a Date, and a throw
  is answered by the handler's \<^verbatim>\<open>catch\<close> with status 500. Descriptions and metadata of the handler's audit entries
  are left out, the fields that the validation reads are there. The first entry of the
  final \<^verbatim>\<open>try\<close> goes through \<^verbatim>\<open>Activity.create\<close> without \<^verbatim>\<open>user\<close>,
  \<^verbatim>\<open>action\<close> or \<^verbatim>\<open>subject\<close>; its throw skips the second.\<close>

definition createReport ::
  "dateparse \<Rightarrow> account \<Rightarrow> report_body \<Rightarrow> db \<Rightarrow> response \<times> db" where
  "createReport D u b s =
     (case (rb_appointmentId b, rb_patientId b, rb_doctorId b, rb_hospitalId b) of
        (Some ai, Some p, Some d, Some h) \<Rightarrow>
          if \<not> truthy (rb_type b) \<or> \<not> truthy (rb_reportNumber b)
          then (reply 400 ''Missing required fields'', s)
          else if find (\<lambda>r. reportNumber r = the (rb_reportNumber b)) (reports s) \<noteq> None
          then (reply 400 ''Report number already exists'', s)
          else if rb_type b = Some ''diagnosis'' \<and> \<not> truthy (rb_diagnosis b)
          then (reply 400 ''Diagnosis is required for diagnosis reports'', s)
          else if rb_type b = Some ''prescription'' \<and> \<not> truthy (rb_prescription b)
          then (reply 400 ''Prescription is required for prescription reports'', s)
          else if the (rb_type b) \<notin> set report_types \<or> cast_fails D (rb_followUpDate b)
          then (reply 500 ''Error creating report'', s)
          else
            (let savedReport = \<lparr>rid = next_oid s, reportNumber = the (rb_reportNumber b),
                                rep_appointmentId = ai,
                                followUpDate = (if truthy (rb_followUpDate b)
                                                then D (the (rb_followUpDate b)) else None),
                                followUpAppointmentId = None\<rparr>;
                 s1 = s\<lparr>reports := reports s @ [savedReport], next_oid := Suc (next_oid s)\<rparr>;
                 s2 = s1\<lparr>appts := map (\<lambda>a. if aid a = ai then a\<lparr>status := ''completed''\<rparr> else a)
                                    (appts s1)\<rparr>;
                 s3 = (if truthy (rb_followUpDate b) then
                         (let followUpAppointment =
                                followUp_appointment (next_oid s2) d p h (the (rb_followUpDate b))
                                  (the (rb_reportNumber b)) (rb_notes b) ai (rid savedReport);
                              t1 = createAppointmentDoc followUpAppointment s2;
                              t2 = t1\<lparr>reports := map (\<lambda>r. if rid r = rid savedReport
                                       then r\<lparr>followUpAppointmentId := Some (aid followUpAppointment)\<rparr>
                                       else r) (reports t1)\<rparr>
                          in logActivity (report_activity u ''followup_scheduled'' ''appointment''
                               (aid followUpAppointment) h p) t2)
                       else s2);
                 s4 = (case createActivity
                              (blank_activity\<lparr>act_hospitalId := Some h, act_patientId := Some p,
                                 actorId := Some (uid u),
                                 actorName := Some (or_default (uname u) ''Unknown''),
                                 actorRole := Some (or_default (urole u) ''staff''),
                                 act_type := Some ''report_generated''\<rparr>) s3 of
                         None \<Rightarrow> s3
                       | Some t \<Rightarrow> logActivity (report_activity u ''report_generated'' ''report''
                                     (rid savedReport) h p) t)
             in (\<lparr>code = 201, message = None, warning = None,
                  appt = (if truthy (rb_followUpDate b) then findAppointmentById (next_oid s2) s3
                          else None)\<rparr>, s4))
      | _ \<Rightarrow> (reply 400 ''Missing required fields'', s))"

subsection \<open>updateMissedAppointments\<close>

text \<open>The two functions of the date-fns library that the script calls:
  \<^verbatim>\<open>format(now, 'yyyy-MM-dd')\<close> and \<^verbatim>\<open>parseISO\<close> (\<^verbatim>\<open>None\<close> is an Invalid Date). They
  are parameters of the model.\<close>

record datefns =
  format_day :: "msec \<Rightarrow> string"
  parseISO :: "string \<Rightarrow> msec option"

text \<open>The order of strings in a MongoDB query (\<^verbatim>\<open>$lt\<close>): byte by byte, a proper
  prefix first.\<close>

fun str_lt :: "string \<Rightarrow> string \<Rightarrow> bool" where
  "str_lt [] [] = False"
| "str_lt [] (y # ys) = True"
| "str_lt (x # xs) [] = False"
| "str_lt (x # xs) (y # ys) =
     ((of_char x :: nat) < of_char y \<or> (x = y \<and> str_lt xs ys))"

text \<open>The query: confirmed appointments of today or of an earlier date.\<close>

definition sweep_query :: "string \<Rightarrow> appointment \<Rightarrow> bool" where
  "sweep_query today a \<longleftrightarrow>
     status a = ''confirmed'' \<and> (str_lt (date a) today \<or> date a = today)"

text \<open>\<^verbatim>\<open>now > addMinutes(parseISO(date + 'T' + time), 30)\<close>; a comparison with an
  Invalid Date is false.\<close>

definition past_threshold :: "datefns \<Rightarrow> msec \<Rightarrow> appointment \<Rightarrow> bool" where
  "past_threshold E now a =
     (case parseISO E (date a @ ''T'' @ time a) of
        None \<Rightarrow> False
      | Some appointmentDateTime \<Rightarrow> now > appointmentDateTime + 30 * 60000)"

definition missed_activity :: "appointment \<Rightarrow> activity" where
  "missed_activity a =
     blank_activity\<lparr>act_user := Some (doctorId a), act_hospitalId := Some (hospitalId a),
       actorId := Some (doctorId a), act_patientId := patientId a,
       action := Some ''appointment_updated'', subject := Some ''appointment'',
       subjectId := Some (aid a), act_type := Some ''appointment_updated'',
       description := Some ''Patient did not appear for appointment'',
       act_status := ''warning'',
       metadata := [(''appointmentId'', JId (aid a)),
                    (''previousStatus'', JStr ''confirmed''),
                    (''newStatus'', JStr ''not_appeared'')]\<rparr>"

text \<open>The loop over the documents that the query returned. A throw of
  \<^verbatim>\<open>appointment.save()\<close> (the document fails its validation) or of
  \<^verbatim>\<open>Activity.create\<close> leaves the loop for the \<^verbatim>\<open>catch\<close> of the function. The count of
  updated appointments is only printed.\<close>

fun mark_missed :: "datefns \<Rightarrow> msec \<Rightarrow> appointment list \<Rightarrow> db \<Rightarrow> db" where
  "mark_missed E now [] s = s"
| "mark_missed E now (a # as) s =
     (if past_threshold E now a then
        (if \<not> appointment_valid (a\<lparr>status := ''not_appeared''\<rparr>) then s
         else
           (let s1 = saveAppointment (a\<lparr>status := ''not_appeared''\<rparr>) s
            in case createActivity (missed_activity a) s1 of
                 None \<Rightarrow> s1
               | Some s2 \<Rightarrow> mark_missed E now as s2))
      else mark_missed E now as s)"

text \<open>The body of the function \<^verbatim>\<open>updateMissedAppointments\<close>.\<close>

definition updateMissedAppointments :: "datefns \<Rightarrow> msec \<Rightarrow> db \<Rightarrow> db" where
  "updateMissedAppointments E now s =
     mark_missed E now (filter (sweep_query (format_day E now)) (appts s)) s"

text \<open>The script file as committed. Its first nine lines are the header comment; the
  rest of the file stands for the function above and the call of it.\<close>

definition script_header :: "string list" where
  "script_header =
     [''/**'',
      '' * This script updates the status of appointments to 'not_appeared' '',
      '' * if they haven't been completed or cancelled within 30 minutes after '',
      '' * their scheduled time.'',
      '' * '',
      '' * This script should be run regularly with a cron job.'',
      '' * For example, to run every 15 minutes:'',
      '' * */15 * * * * node /path/to/backend/scripts/updateMissedAppointments.js'',
      '' */'']"

text \<open>The text of a line after its first \<^verbatim>\<open>*/\<close>.\<close>

fun after_close :: "string \<Rightarrow> string option" where
  "after_close (c # d # cs) =
     (if c = CHR ''*'' \<and> d = CHR ''/'' then Some cs else after_close (d # cs))"
| "after_close cs = None"

text \<open>Inside a block comment: the rest of the line on which the comment ends.\<close>

fun comment_rest :: "string list \<Rightarrow> string option" where
  "comment_rest [] = None"
| "comment_rest (l # ls) = (case after_close l of Some r \<Rightarrow> Some r | None \<Rightarrow> comment_rest ls)"

text \<open>The words of a line, separated by blanks.\<close>

fun words_of :: "string \<Rightarrow> string \<Rightarrow> string list" where
  "words_of w [] = (if w = [] then [] else [w])"
| "words_of w (c # cs) =
     (if c = CHR '' '' then (if w = [] then words_of [] cs else w # words_of [] cs)
      else words_of (w @ [c]) cs)"

text \<open>A multiplication sign that is followed by another one has no right operand: no
  JavaScript program has these two tokens in a row.\<close>

fun operand_missing :: "string list \<Rightarrow> bool" where
  "operand_missing (x # y # ws) = ((x = ''*'' \<and> y = ''*'') \<or> operand_missing (y # ws))"
| "operand_missing ws = False"

text \<open>The file parses only if the header comment, opened by the \<^verbatim>\<open>/*\<close> of its first
  line, is closed and the text after its end on that line is a program.\<close>

definition script_parses :: bool where
  "script_parses \<longleftrightarrow>
     (case script_header of
        [] \<Rightarrow> False
      | l # ls \<Rightarrow> (case comment_rest (drop 2 l # ls) of
                    None \<Rightarrow> False
                  | Some r \<Rightarrow> \<not> operand_missing (words_of [] r)))"

text \<open>A run of the script, \<^verbatim>\<open>node updateMissedAppointments.js\<close>: a file that does not
  parse is a SyntaxError before any statement runs.\<close>

definition run_script :: "datefns \<Rightarrow> msec \<Rightarrow> db \<Rightarrow> db" where
  "run_script E now s = (if script_parses then updateMissedAppointments E now s else s)"

text \<open>The appointments that a run of the sweep at \<open>now\<close> marks: those the query
  returns whose threshold has passed.\<close>

definition affected :: "datefns \<Rightarrow> msec \<Rightarrow> appointment \<Rightarrow> bool" where
  "affected E now a \<longleftrightarrow> sweep_query (format_day E now) a \<and> past_threshold E now a"

text \<open>What the activation rule leaves of a patient record: status and
  \<^verbatim>\<open>lastStatusChangeDate\<close> as they were, or active since \<open>now\<close>.\<close>

definition keeps_status :: "patient \<Rightarrow> patient \<Rightarrow> bool" where
  "keeps_status p p' \<longleftrightarrow>
     pstatus p' = pstatus p \<and> lastStatusChangeDate p' = lastStatusChangeDate p"

definition activated :: "msec \<Rightarrow> patient \<Rightarrow> bool" where
  "activated now p' \<longleftrightarrow> pstatus p' = ''active'' \<and> lastStatusChangeDate p' = Some now"


subsection \<open>A small database for the examples\<close>

definition ex_dates :: dateparse where
  "ex_dates x = (if x = ''2024-06-01'' then Some 1717200000000
                 else if x = ''2024-07-01'' then Some 1719792000000 else None)"

definition ex_appt :: appointment where
  "ex_appt = new_appointment 10 1 20 30 ''2024-06-01'' ''09:00'' ''consultation'' []"

definition ex_patient :: patient where
  "ex_patient = \<lparr>pid = 20, pname = ''Ann'', email = ''a@x.com'', hospital = Some 30,
     pstatus = ''active'', treatmentDays = 5, lastStatusChangeDate = Some 1000,
     appointments = []\<rparr>"

definition ex_staff :: account where
  "ex_staff = \<lparr>uid = 40, uname = Some ''Sam'', urole = Some ''staff'', ustatus = ''active''\<rparr>"

definition ex_doctor_account :: account where
  "ex_doctor_account =
     \<lparr>uid = 41, uname = Some ''Dee'', urole = Some ''doctor'', ustatus = ''active''\<rparr>"

definition ex_doctor :: doctor where
  "ex_doctor = \<lparr>did = 1, userId = Some 41\<rparr>"

definition ex_db :: db where
  "ex_db = \<lparr>appts = [ex_appt], patients = [ex_patient], activities = [],
     doctors = [ex_doctor], users = [ex_staff, ex_doctor_account], reports = [],
     next_oid = 100\<rparr>"

definition no_faults :: faults where
  "no_faults = \<lparr>patient_find_throws = False, patient_save_throws = False\<rparr>"

definition save_fault :: faults where
  "save_fault = \<lparr>patient_find_throws = False, patient_save_throws = True\<rparr>"

definition ex_outcome :: "string option \<Rightarrow> outcome_body" where
  "ex_outcome v = \<lparr>b_diagnosis = None, b_disease = None, b_treatmentOutcome = v,
     b_treatmentEndDate = None\<rparr>"

definition ex_create :: create_body where
  "ex_create = \<lparr>cb_patientId = Some 20, cb_doctorId = Some 1, cb_hospitalId = Some 30,
     cb_date = Some ''2024-06-01'', cb_time = Some ''09:00'', cb_type = Some ''consultation'',
     cb_status = None, cb_notes = None\<rparr>"

definition ex_booking :: "string \<Rightarrow> string \<Rightarrow> booking_body" where
  "ex_booking em tm = \<lparr>bk_doctorId = Some 1,
     bk_patientDetails = Some \<lparr>pd_name = Some ''Bob'', pd_email = Some em\<rparr>,
     bk_hospitalId = Some 30, bk_date = Some ''2024-06-01'', bk_time = Some tm,
     bk_type = None, bk_notes = None\<rparr>"

definition ex_env :: datefns where
  "ex_env = \<lparr>format_day = (\<lambda>t. ''2024-06-02''),
             parseISO = (\<lambda>x. if x = ''2024-06-01T09:00'' then Some 1000 else None)\<rparr>"

definition ex_confirmed :: appointment where
  "ex_confirmed = ex_appt\<lparr>status := ''confirmed''\<rparr>"

definition ex_sweep_db :: db where
  "ex_sweep_db = ex_db\<lparr>appts := [ex_confirmed]\<rparr>"

definition ex_inactive_db :: db where
  "ex_inactive_db = ex_db\<lparr>patients := [ex_patient\<lparr>pstatus := ''inactive''\<rparr>]\<rparr>"

definition ex_confirm :: status_body where
  "ex_confirm = \<lparr>b_status = ''confirmed'', b_noShowReason = None\<rparr>"

definition ex_report :: "string \<Rightarrow> report_body" where
  "ex_report number = \<lparr>rb_appointmentId = Some 10, rb_patientId = Some 20,
     rb_doctorId = Some 1, rb_hospitalId = Some 30, rb_diagnosis = Some ''flu'',
     rb_prescription = None, rb_notes = None, rb_followUpDate = Some ''2024-07-01'',
     rb_type = Some ''diagnosis'', rb_reportNumber = Some number\<rparr>"


section \<open>Properties\<close>

subsection \<open>Lookups and saves\<close>

lemma find_map_replace:
  "find (\<lambda>a. f a = k) xs = Some a \<Longrightarrow> f a' = k \<Longrightarrow>
   find (\<lambda>a. f a = k) (map (\<lambda>b. if f b = k then a' else b) xs) = Some a'"
  by (induction xs) (auto split: if_splits)

lemma find_key: "find (\<lambda>a. f a = k) xs = Some a \<Longrightarrow> f a = k"
  by (induction xs) (auto split: if_splits)

lemma findAppointmentById_aid: "findAppointmentById k s = Some a \<Longrightarrow> aid a = k"
  unfolding findAppointmentById_def by (rule find_key)

lemma findPatientById_pid: "findPatientById k s = Some p \<Longrightarrow> pid p = k"
  unfolding findPatientById_def by (rule find_key)

lemma findAppointmentById_save:
  "findAppointmentById k s = Some a \<Longrightarrow> aid a' = k \<Longrightarrow>
   findAppointmentById k (saveAppointment a' s) = Some a'"
  unfolding findAppointmentById_def saveAppointment_def
  using find_map_replace by fastforce

lemma findPatientById_save:
  "findPatientById k s = Some p \<Longrightarrow> pid p' = k \<Longrightarrow>
   findPatientById k (savePatient p' s) = Some p'"
  unfolding findPatientById_def savePatient_def
  using find_map_replace by fastforce

lemma logActivity_appts [simp]: "appts (logActivity x s) = appts s"
  and logActivity_patients [simp]: "patients (logActivity x s) = patients s"
  and logActivity_doctors [simp]: "doctors (logActivity x s) = doctors s"
  by (simp_all add: logActivity_def Let_def)

lemma savePatient_appts [simp]: "appts (savePatient p s) = appts s"
  and savePatient_activities [simp]: "activities (savePatient p s) = activities s"
  by (simp_all add: savePatient_def)

lemma saveAppointment_patients [simp]: "patients (saveAppointment a s) = patients s"
  and saveAppointment_activities [simp]: "activities (saveAppointment a s) = activities s"
  and saveAppointment_doctors [simp]: "doctors (saveAppointment a s) = doctors s"
  by (simp_all add: saveAppointment_def)

lemma findPatientById_patients:
  "patients s' = patients s \<Longrightarrow> findPatientById k s' = findPatientById k s"
  by (simp add: findPatientById_def)

lemma findAppointmentById_appts:
  "appts s' = appts s \<Longrightarrow> findAppointmentById k s' = findAppointmentById k s"
  by (simp add: findAppointmentById_def)

subsection \<open>Treatment outcome\<close>

lemma outcome_finish_appts: "appts (snd (outcome_finish u a b s)) = appts s"
  and outcome_finish_patients: "patients (snd (outcome_finish u a b s)) = patients s"
  by (simp_all add: outcome_finish_def)

lemma ms_per_day_pos: "0 < ms_per_day"
  by (simp add: ms_per_day_def)

lemma apply_outcome_fields [simp]:
  "aid (apply_outcome D b a) = aid a" "patientId (apply_outcome D b a) = patientId a"
  "treatmentOutcome (apply_outcome D b a) = b_treatmentOutcome b"
  "doctorId (apply_outcome D b a) = doctorId a"
  by (simp_all add: apply_outcome_def Let_def)

lemma apply_outcome_valid:
  "appointment_valid a \<Longrightarrow> enum_ok validOutcomes (b_treatmentOutcome b) \<Longrightarrow>
   appointment_valid (apply_outcome D b a)"
  by (simp add: appointment_valid_def apply_outcome_def Let_def appointment_statuses_def)

lemma deactivate_valid: "patient_valid p \<Longrightarrow> patient_valid (deactivate currentDate stamp p)"
  by (simp add: patient_valid_def deactivate_def Let_def split: option.splits)

lemma deactivate_accrual:
  assumes "pstatus p = ''active''" "lastStatusChangeDate p = Some T"
    and "currentDate = T + int n * ms_per_day + r" "0 \<le> r" "r < ms_per_day"
  shows "deactivate currentDate stamp p
         = p\<lparr>treatmentDays := treatmentDays p + int n, pstatus := ''inactive'',
               lastStatusChangeDate := Some stamp\<rparr>"
proof -
  have "0 < ms_per_day" by (simp add: ms_per_day_def)
  then have "(int n * ms_per_day + r) div ms_per_day = int n"
    using assms(4,5) by simp
  then show ?thesis using assms(1,2,3) by (simp add: deactivate_def)
qed

text \<open>The call reaches the patient step of a terminal outcome.\<close>

lemma outcome_reaches_deactivate:
  assumes "findAppointmentById k s = Some a"
    and "outcome_permission u a s = None"
    and "b_treatmentOutcome b = Some ''successful'' \<or> b_treatmentOutcome b = Some ''unsuccessful''"
    and "appointment_valid a" and "\<not> cast_fails D (b_treatmentEndDate b)"
  shows "updateTreatmentOutcome D f currentDate stamp u (Some k) b s
         = outcome_deactivate f currentDate stamp u (apply_outcome D b a) b
             (saveAppointment (apply_outcome D b a) s)"
proof -
  have ok: "enum_ok validOutcomes (b_treatmentOutcome b)"
    using assms(3) by (auto simp: enum_ok_def validOutcomes_def)
  have "appointment_valid (apply_outcome D b a)"
    using apply_outcome_valid [OF assms(4) ok] .
  then show ?thesis
    using assms(1,2,3,5) ok by (auto simp: updateTreatmentOutcome_def Let_def)
qed

text \<open>
  C2. A patient is active since \<open>T\<close> with \<open>treatmentDays = D\<close>. Recording the outcome
  \<^verbatim>\<open>successful\<close> or \<^verbatim>\<open>unsuccessful\<close> at \<open>T\<close> plus \<open>n\<close> whole days (and a rest \<open>r\<close> of less
  than a day, which the floor drops) on an appointment of the patient leaves the patient
  with \<open>treatmentDays = D + n\<close>, status \<^verbatim>\<open>inactive\<close> and \<^verbatim>\<open>lastStatusChangeDate\<close> the time
  of the change. The call is one that goes through: the caller is permitted, the stored
  appointment and patient pass the validation of their schemas, a
  \<^verbatim>\<open>treatmentEndDate\<close> of the request is a date, and no call to the patient collection
  throws.
\<close>

theorem deactivation_accrual:
  assumes "findAppointmentById k s = Some a"
    and "outcome_permission u a s = None"
    and "b_treatmentOutcome b = Some ''successful'' \<or> b_treatmentOutcome b = Some ''unsuccessful''"
    and "appointment_valid a" and "\<not> cast_fails D (b_treatmentEndDate b)"
    and "patientId a = Some j"
    and "findPatientById j s = Some p" and "patient_valid p"
    and "pstatus p = ''active''" "lastStatusChangeDate p = Some T"
    and "currentDate = T + int n * ms_per_day + r" "0 \<le> r" "r < ms_per_day"
    and "\<not> patient_find_throws f" "\<not> patient_save_throws f"
  shows "\<exists>p'. findPatientById j
                (snd (updateTreatmentOutcome D f currentDate stamp u (Some k) b s)) = Some p'
           \<and> treatmentDays p' = treatmentDays p + int n
           \<and> pstatus p' = ''inactive''
           \<and> lastStatusChangeDate p' = Some stamp"
proof -
  let ?a = "apply_outcome D b a"
  let ?s1 = "saveAppointment ?a s"
  let ?p = "deactivate currentDate stamp p"
  have pa: "patientId ?a = Some j"
    using assms(6) by simp
  have fp: "findPatientById j ?s1 = Some p"
    using assms(7) by (simp add: findPatientById_def)
  have pid: "pid ?p = j"
    using findPatientById_pid [OF assms(7)] by (simp add: deactivate_def Let_def split: option.splits)
  have pv: "patient_valid ?p"
    using deactivate_valid [OF assms(8)] .
  have run: "updateTreatmentOutcome D f currentDate stamp u (Some k) b s
             = outcome_deactivate f currentDate stamp u ?a b ?s1"
    using outcome_reaches_deactivate [OF assms(1,2,3,4,5)] .
  have "patients (snd (outcome_deactivate f currentDate stamp u ?a b ?s1))
        = patients (savePatient ?p ?s1)"
    using pa fp pv assms(14,15)
    by (simp add: outcome_deactivate_def Let_def outcome_finish_patients)
  then have "findPatientById j (snd (updateTreatmentOutcome D f currentDate stamp u (Some k) b s))
        = findPatientById j (savePatient ?p ?s1)"
    using run by (simp add: findPatientById_def)
  also have "\<dots> = Some ?p"
    using findPatientById_save [OF fp pid] .
  finally show ?thesis
    using deactivate_accrual [OF assms(9,10,11,12,13), of stamp] by simp
qed

lemma ex_db_fields [simp]:
  "appts ex_db = [ex_appt]" "patients ex_db = [ex_patient]" "activities ex_db = []"
  "doctors ex_db = [ex_doctor]" "users ex_db = [ex_staff, ex_doctor_account]"
  "reports ex_db = []" "next_oid ex_db = 100"
  by (simp_all add: ex_db_def)

lemma ex_appt_fields [simp]:
  "aid ex_appt = 10" "patientId ex_appt = Some 20" "doctorId ex_appt = 1"
  "hospitalId ex_appt = 30" "date ex_appt = ''2024-06-01''" "time ex_appt = ''09:00''"
  "status ex_appt = ''pending''" "treatmentOutcome ex_appt = Some ''ongoing''"
  "diagnosis ex_appt = None" "disease ex_appt = None"
  by (simp_all add: ex_appt_def new_appointment_def)

lemma ex_patient_fields [simp]:
  "pid ex_patient = 20" "email ex_patient = ''a@x.com''" "pstatus ex_patient = ''active''"
  "treatmentDays ex_patient = 5" "lastStatusChangeDate ex_patient = Some 1000"
  "appointments ex_patient = []" "hospital ex_patient = Some 30"
  by (simp_all add: ex_patient_def)

lemma ex_staff_fields [simp]:
  "uid ex_staff = 40" "uname ex_staff = Some ''Sam''" "urole ex_staff = Some ''staff''"
  by (simp_all add: ex_staff_def)

lemma ex_valid [simp]:
  "appointment_valid ex_appt" "patient_valid ex_patient"
  "patient_valid (ex_patient\<lparr>pstatus := ''inactive''\<rparr>)"
  by (simp_all add: appointment_valid_def patient_valid_def ex_appt_def new_appointment_def
        ex_patient_def appointment_statuses_def enum_ok_def validOutcomes_def)

lemma ex_find_appt: "findAppointmentById 10 ex_db = Some ex_appt"
  by (simp add: findAppointmentById_def)

lemma ex_find_patient: "findPatientById 20 ex_db = Some ex_patient"
  by (simp add: findPatientById_def)

lemma ex_permission: "outcome_permission ex_staff ex_appt ex_db = None"
  by (simp add: outcome_permission_def)

lemma ex_no_cast: "\<not> cast_fails D (b_treatmentEndDate (ex_outcome v))"
  by (simp add: cast_fails_def ex_outcome_def truthy_def)

theorem deactivation_accrual_witness:
  "\<exists>p'. findPatientById 20
           (snd (updateTreatmentOutcome ex_dates no_faults (1000 + 3 * ms_per_day) 7777 ex_staff
                  (Some 10) (ex_outcome (Some ''successful'')) ex_db)) = Some p'
        \<and> treatmentDays p' = 8 \<and> pstatus p' = ''inactive''
        \<and> lastStatusChangeDate p' = Some 7777"
  using deactivation_accrual [of 10 ex_db ex_appt ex_staff "ex_outcome (Some ''successful'')"
      ex_dates 20 ex_patient 1000 "1000 + 3 * ms_per_day" 3 0 no_faults 7777]
    ex_find_appt ex_find_patient ex_permission ms_per_day_pos ex_no_cast [of ex_dates]
  by (simp add: ex_outcome_def no_faults_def)

text \<open>
  C3. A call of \<^verbatim>\<open>updateTreatmentOutcome\<close> that is answered with success leaves the
  appointment, in the store and in the answer, with status \<^verbatim>\<open>completed\<close> when the
  outcome supplied is \<^verbatim>\<open>successful\<close>, \<^verbatim>\<open>partial\<close> or \<^verbatim>\<open>unsuccessful\<close>, whatever the
  status was; with the outcome \<^verbatim>\<open>ongoing\<close> the status stays what it was.
\<close>

theorem outcome_forces_completion:
  assumes "updateTreatmentOutcome D f currentDate stamp u i b s = (r, s')"
    and "code r = 200"
  shows "\<exists>k a0 a. i = Some k \<and> findAppointmentById k s = Some a0
           \<and> findAppointmentById k s' = Some a \<and> appt r = Some a
           \<and> (b_treatmentOutcome b \<in> {Some ''successful'', Some ''partial'', Some ''unsuccessful''}
                \<longrightarrow> status a = ''completed'')
           \<and> (b_treatmentOutcome b = Some ''ongoing'' \<longrightarrow> status a = status a0)"
proof -
  obtain k where i: "i = Some k"
    using assms by (cases i) (auto simp: updateTreatmentOutcome_def reply_def)
  obtain a0 where a0: "findAppointmentById k s = Some a0"
    using assms i by (cases "findAppointmentById k s") (auto simp: updateTreatmentOutcome_def reply_def)
  let ?a = "apply_outcome D b a0"
  let ?s1 = "saveAppointment ?a s"
  have perm: "outcome_permission u a0 s = None"
    using assms i a0
    by (cases "outcome_permission u a0 s")
       (auto simp: updateTreatmentOutcome_def outcome_permission_def reply_def split: option.splits if_splits)
  have aid: "aid ?a = k"
    using findAppointmentById_aid [OF a0] by simp
  have saved: "findAppointmentById k ?s1 = Some ?a"
    using findAppointmentById_save [OF a0 aid] .
  have tail: "(r, s') = outcome_deactivate f currentDate stamp u ?a b ?s1
            \<or> (r, s') = outcome_ongoing f stamp u ?a b ?s1
            \<or> (r, s') = outcome_finish u ?a b ?s1"
    using assms i a0 perm
    by (auto simp: updateTreatmentOutcome_def Let_def reply_def split: if_splits)
  have r: "appt r = Some ?a \<and> appts s' = appts ?s1"
    using tail assms(2)
    by (auto simp: outcome_deactivate_def outcome_ongoing_def outcome_finish_def Let_def
          reply_def outcome_reply_def sync_failed_reply_def not_found_reply_def
          split: option.splits if_splits)
  then have "findAppointmentById k s' = Some ?a"
    using saved by (simp add: findAppointmentById_def)
  moreover have "b_treatmentOutcome b \<in> {Some ''successful'', Some ''partial'', Some ''unsuccessful''}
                \<longrightarrow> status ?a = ''completed''"
    by (auto simp: apply_outcome_def Let_def truthy_def)
  moreover have "b_treatmentOutcome b = Some ''ongoing'' \<longrightarrow> status ?a = status a0"
    by (auto simp: apply_outcome_def Let_def truthy_def)
  ultimately show ?thesis using i a0 r by blast
qed

lemma logActivity_treatment: "logActivity (treatment_activity u a b) s = s"
  by (simp add: logActivity_def treatment_activity_def blank_activity_def activity_valid_def
        enum_ok_def activity_types_def)

lemma logActivity_patient_status: "logActivity (patient_status_activity u p m md) s = s"
  by (simp add: logActivity_def patient_status_activity_def blank_activity_def
        activity_valid_def enum_ok_def activity_actions_def)

lemma ex_partial_run:
  "updateTreatmentOutcome ex_dates no_faults 5000 6000 ex_staff (Some 10)
     (ex_outcome (Some ''partial'')) ex_db
   = (outcome_reply ''Treatment outcome updated successfully'' None
        (apply_outcome ex_dates (ex_outcome (Some ''partial'')) ex_appt),
      ex_db\<lparr>appts := [apply_outcome ex_dates (ex_outcome (Some ''partial'')) ex_appt]\<rparr>)"
proof -
  have "appointment_valid (apply_outcome ex_dates (ex_outcome (Some ''partial'')) ex_appt)"
    by (rule apply_outcome_valid) (simp_all add: ex_outcome_def enum_ok_def validOutcomes_def)
  then show ?thesis
    using ex_no_cast [of ex_dates "Some ''partial''"]
    by (simp add: updateTreatmentOutcome_def ex_find_appt ex_permission Let_def
          outcome_finish_def logActivity_treatment saveAppointment_def)
       (simp add: ex_outcome_def truthy_def enum_ok_def validOutcomes_def)
qed

theorem outcome_forces_completion_witness:
  "status ex_appt = ''pending'' \<and>
   (\<exists>a. findAppointmentById 10
           (snd (updateTreatmentOutcome ex_dates no_faults 5000 6000 ex_staff (Some 10)
                   (ex_outcome (Some ''partial'')) ex_db)) = Some a
      \<and> status a = ''completed'')"
proof -
  from outcome_forces_completion [OF ex_partial_run]
  obtain a where "findAppointmentById 10
        (ex_db\<lparr>appts := [apply_outcome ex_dates (ex_outcome (Some ''partial'')) ex_appt]\<rparr>) = Some a"
    and "b_treatmentOutcome (ex_outcome (Some ''partial''))
           \<in> {Some ''successful'', Some ''partial'', Some ''unsuccessful''}
         \<longrightarrow> status a = ''completed''"
    by (auto simp: outcome_reply_def)
  then show ?thesis
    by (simp add: ex_partial_run) (simp add: ex_outcome_def)
qed

text \<open>
  C8. A call of \<^verbatim>\<open>updateTreatmentOutcome\<close> with the outcome \<^verbatim>\<open>partial\<close> leaves every
  patient record as it was, whatever the rest of the request and whatever the answer:
  status, \<^verbatim>\<open>lastStatusChangeDate\<close> and \<^verbatim>\<open>treatmentDays\<close> included.
\<close>

theorem partial_outcome_keeps_patients:
  "patients (snd (updateTreatmentOutcome D f currentDate stamp u i
                    (b\<lparr>b_treatmentOutcome := Some ''partial''\<rparr>) s)) = patients s"
  by (simp add: updateTreatmentOutcome_def outcome_finish_patients Let_def split: option.splits)

text \<open>
  C10. The request carries no \<^verbatim>\<open>treatmentOutcome\<close>. No patient record changes, whatever
  the answer. When the call is answered with success, the stored \<^verbatim>\<open>treatmentOutcome\<close>
  of the appointment has become absent whatever it was, an omitted diagnosis or disease
  has kept the stored value, the status has not been forced to \<^verbatim>\<open>completed\<close>, and the
  answer is the plain one without a warning. The call is answered with success when the
  caller is permitted, the stored appointment passes the validation of its schema and
  a \<^verbatim>\<open>treatmentEndDate\<close> of the request is a date.
\<close>

theorem omitted_outcome:
  assumes "b_treatmentOutcome b = None"
    and "updateTreatmentOutcome D f currentDate stamp u i b s = (r, s')"
  shows "patients s' = patients s
       \<and> (code r = 200 \<longrightarrow>
            (\<exists>k a a'. i = Some k \<and> findAppointmentById k s = Some a
               \<and> findAppointmentById k s' = Some a' \<and> appt r = Some a'
               \<and> warning r = None
               \<and> treatmentOutcome a' = None
               \<and> (b_diagnosis b = None \<longrightarrow> diagnosis a' = diagnosis a)
               \<and> (b_disease b = None \<longrightarrow> disease a' = disease a)
               \<and> status a' = status a))
       \<and> ((\<exists>k a. i = Some k \<and> findAppointmentById k s = Some a
                \<and> outcome_permission u a s = None \<and> appointment_valid a
                \<and> \<not> cast_fails D (b_treatmentEndDate b))
            \<longrightarrow> code r = 200)"
proof -
  have pat: "patients s' = patients s"
    using assms
    by (auto simp: updateTreatmentOutcome_def outcome_finish_def Let_def
          split: option.splits if_splits)
  have fields: "treatmentOutcome (apply_outcome D b a) = None"
      "status (apply_outcome D b a) = status a"
      "b_diagnosis b = None \<longrightarrow> diagnosis (apply_outcome D b a) = diagnosis a"
      "b_disease b = None \<longrightarrow> disease (apply_outcome D b a) = disease a" for a
    using assms(1) by (simp_all add: apply_outcome_def Let_def truthy_def js_or_def)
  have ok: "\<exists>k a a'. i = Some k \<and> findAppointmentById k s = Some a
               \<and> findAppointmentById k s' = Some a' \<and> appt r = Some a'
               \<and> warning r = None
               \<and> treatmentOutcome a' = None
               \<and> (b_diagnosis b = None \<longrightarrow> diagnosis a' = diagnosis a)
               \<and> (b_disease b = None \<longrightarrow> disease a' = disease a)
               \<and> status a' = status a" if c: "code r = 200"
  proof -
    obtain k where i: "i = Some k"
      using assms c by (cases i) (auto simp: updateTreatmentOutcome_def reply_def)
    obtain a where a: "findAppointmentById k s = Some a"
      using assms c i
      by (cases "findAppointmentById k s") (auto simp: updateTreatmentOutcome_def reply_def)
    let ?a = "apply_outcome D b a"
    have run: "(r, s') = outcome_finish u ?a b (saveAppointment ?a s)"
      using assms c i a
      by (auto simp: updateTreatmentOutcome_def outcome_permission_def Let_def reply_def
            split: option.splits if_splits)
    have aid: "aid ?a = k"
      using findAppointmentById_aid [OF a] by simp
    have "findAppointmentById k (saveAppointment ?a s) = Some ?a"
      using findAppointmentById_save [OF a aid] .
    then have "findAppointmentById k s' = Some ?a" "appt r = Some ?a" "warning r = None"
      using run by (simp_all add: outcome_finish_def findAppointmentById_def outcome_reply_def)
    then have "i = Some k \<and> findAppointmentById k s = Some a
               \<and> findAppointmentById k s' = Some ?a \<and> appt r = Some ?a
               \<and> warning r = None
               \<and> treatmentOutcome ?a = None
               \<and> (b_diagnosis b = None \<longrightarrow> diagnosis ?a = diagnosis a)
               \<and> (b_disease b = None \<longrightarrow> disease ?a = disease a)
               \<and> status ?a = status a"
      using i a fields [of a] by simp
    then show ?thesis
      by (intro exI)
  qed
  have go: "code r = 200"
    if h: "\<exists>k a. i = Some k \<and> findAppointmentById k s = Some a
                \<and> outcome_permission u a s = None \<and> appointment_valid a
                \<and> \<not> cast_fails D (b_treatmentEndDate b)"
  proof -
    from h obtain k a where i: "i = Some k" and a: "findAppointmentById k s = Some a"
      and p: "outcome_permission u a s = None" and v: "appointment_valid a"
      and c: "\<not> cast_fails D (b_treatmentEndDate b)"
      by blast
    have "appointment_valid (apply_outcome D b a)"
      by (rule apply_outcome_valid [OF v]) (simp add: assms(1) enum_ok_def)
    then show ?thesis
      using assms i a p c
      by (auto simp: updateTreatmentOutcome_def Let_def truthy_def outcome_finish_def
            outcome_reply_def)
  qed
  show ?thesis using pat ok go by blast
qed

lemma ex_omitted_run:
  "updateTreatmentOutcome ex_dates no_faults 5000 6000 ex_staff (Some 10) (ex_outcome None) ex_db
   = (outcome_reply ''Treatment outcome updated successfully'' None
        (apply_outcome ex_dates (ex_outcome None) ex_appt),
      ex_db\<lparr>appts := [apply_outcome ex_dates (ex_outcome None) ex_appt]\<rparr>)"
proof -
  have "appointment_valid (apply_outcome ex_dates (ex_outcome None) ex_appt)"
    by (rule apply_outcome_valid) (simp_all add: ex_outcome_def enum_ok_def)
  then show ?thesis
    using ex_no_cast [of ex_dates None]
    by (simp add: updateTreatmentOutcome_def ex_find_appt ex_permission Let_def
          outcome_finish_def logActivity_treatment saveAppointment_def)
       (simp add: ex_outcome_def truthy_def)
qed

theorem omitted_outcome_witness:
  "treatmentOutcome ex_appt = Some ''ongoing'' \<and>
   (\<exists>a'. findAppointmentById 10
            (snd (updateTreatmentOutcome ex_dates no_faults 5000 6000 ex_staff (Some 10)
                    (ex_outcome None) ex_db))
          = Some a'
        \<and> treatmentOutcome a' = None \<and> status a' = ''pending'')"
proof -
  have b: "b_treatmentOutcome (ex_outcome None) = None"
    by (simp add: ex_outcome_def)
  from omitted_outcome [OF b ex_omitted_run]
  obtain a a' where "findAppointmentById 10 ex_db = Some a"
    and "findAppointmentById 10
           (ex_db\<lparr>appts := [apply_outcome ex_dates (ex_outcome None) ex_appt]\<rparr>) = Some a'"
    and "treatmentOutcome a' = None" "status a' = status a"
    by (auto simp: outcome_reply_def)
  then show ?thesis
    by (simp add: ex_omitted_run ex_find_appt)
qed

subsection \<open>The no-show sweep\<close>

lemma createActivity_missed:
  "createActivity (missed_activity a) s
   = Some (s\<lparr>activities := activities s @ [missed_activity a]\<rparr>)"
  by (simp add: createActivity_def activity_valid_def missed_activity_def blank_activity_def
        enum_ok_def activity_actions_def activity_types_def activity_subjects_def)

lemma not_appeared_valid:
  "appointment_valid a \<Longrightarrow> appointment_valid (a\<lparr>status := ''not_appeared''\<rparr>)"
  by (simp add: appointment_valid_def appointment_statuses_def)

lemma mark_missed_none:
  "\<forall>a\<in>set as. \<not> past_threshold E now a \<Longrightarrow> mark_missed E now as s = s"
  by (induction as) simp_all

lemma mark_missed_result:
  assumes "distinct (map aid as)"
    and "\<forall>a\<in>set as. \<forall>b\<in>set (appts s). aid b = aid a \<longrightarrow> b = a"
    and "\<forall>a\<in>set as. appointment_valid a"
  shows "mark_missed E now as s
         = s\<lparr>appts := map (\<lambda>b. if aid b \<in> aid ` {a \<in> set as. past_threshold E now a}
                              then b\<lparr>status := ''not_appeared''\<rparr> else b) (appts s),
              activities := activities s @ map missed_activity (filter (past_threshold E now) as)\<rparr>"
  using assms
proof (induction as arbitrary: s)
  case Nil
  then show ?case by simp
next
  case (Cons a as)
  show ?case
  proof (cases "past_threshold E now a")
    case False
    have "mark_missed E now (a # as) s = mark_missed E now as s"
      using False by simp
    also have "\<dots> = s\<lparr>appts := map (\<lambda>b. if aid b \<in> aid ` {a \<in> set as. past_threshold E now a}
                              then b\<lparr>status := ''not_appeared''\<rparr> else b) (appts s),
              activities := activities s @ map missed_activity (filter (past_threshold E now) as)\<rparr>"
      using Cons.IH Cons.prems by simp
    also have "{x \<in> set as. past_threshold E now x} = {x \<in> set (a # as). past_threshold E now x}"
      using False by auto
    finally show ?thesis using False by simp
  next
    case True
    let ?m = "a\<lparr>status := ''not_appeared''\<rparr>"
    let ?s2 = "(saveAppointment ?m s)\<lparr>activities := activities s @ [missed_activity a]\<rparr>"
    have step: "mark_missed E now (a # as) s = mark_missed E now as ?s2"
      using True Cons.prems(3) by (simp add: createActivity_missed Let_def not_appeared_valid)
    have fresh: "aid a \<notin> aid ` set as"
      using Cons.prems(1) by auto
    have agree: "\<forall>x\<in>set as. \<forall>b\<in>set (appts ?s2). aid b = aid x \<longrightarrow> b = x"
      using Cons.prems(2) fresh by (auto simp: saveAppointment_def split: if_splits)
    have ih: "mark_missed E now as ?s2
         = ?s2\<lparr>appts := map (\<lambda>b. if aid b \<in> aid ` {a \<in> set as. past_threshold E now a}
                              then b\<lparr>status := ''not_appeared''\<rparr> else b) (appts ?s2),
              activities := activities ?s2 @ map missed_activity (filter (past_threshold E now) as)\<rparr>"
      using Cons.IH [OF _ agree] Cons.prems(1,3) by simp
    have maps: "map (\<lambda>b. if aid b \<in> aid ` {a \<in> set as. past_threshold E now a}
                              then b\<lparr>status := ''not_appeared''\<rparr> else b) (appts ?s2)
        = map (\<lambda>b. if aid b \<in> aid ` {x \<in> set (a # as). past_threshold E now x}
                              then b\<lparr>status := ''not_appeared''\<rparr> else b) (appts s)"
    proof -
      have "\<forall>b\<in>set (appts s).
              (let c = (if aid b = aid ?m then ?m else b)
               in if aid c \<in> aid ` {a \<in> set as. past_threshold E now a}
                  then c\<lparr>status := ''not_appeared''\<rparr> else c)
            = (if aid b \<in> aid ` {x \<in> set (a # as). past_threshold E now x}
               then b\<lparr>status := ''not_appeared''\<rparr> else b)"
      proof
        fix b assume b: "b \<in> set (appts s)"
        show "(let c = (if aid b = aid ?m then ?m else b)
               in if aid c \<in> aid ` {a \<in> set as. past_threshold E now a}
                  then c\<lparr>status := ''not_appeared''\<rparr> else c)
            = (if aid b \<in> aid ` {x \<in> set (a # as). past_threshold E now x}
               then b\<lparr>status := ''not_appeared''\<rparr> else b)"
        proof (cases "aid b = aid a")
          case True
          then have "b = a" using Cons.prems(2) b by simp
          moreover have "aid a \<notin> aid ` {x \<in> set as. past_threshold E now x}"
            using fresh by auto
          ultimately show ?thesis using \<open>past_threshold E now a\<close> by (simp add: Let_def)
        next
          case False
          then show ?thesis by auto
        qed
      qed
      then show ?thesis
        by (simp add: saveAppointment_def Let_def)
    qed
    show ?thesis
      unfolding step ih maps using True by (simp add: saveAppointment_def)
  qed
qed

lemma distinct_aid_eq:
  "distinct (map aid xs) \<Longrightarrow> a \<in> set xs \<Longrightarrow> b \<in> set xs \<Longrightarrow> aid b = aid a \<Longrightarrow> b = a"
  by (meson distinct_map inj_on_def)

lemma sweep_result:
  assumes "distinct (map aid (appts s))" and "\<forall>a\<in>set (appts s). appointment_valid a"
  shows "updateMissedAppointments E now s
         = s\<lparr>appts := map (\<lambda>b. if affected E now b then b\<lparr>status := ''not_appeared''\<rparr> else b)
                          (appts s),
              activities := activities s @ map missed_activity (filter (affected E now) (appts s))\<rparr>"
proof -
  let ?q = "sweep_query (format_day E now)"
  let ?as = "filter ?q (appts s)"
  have d: "distinct (map aid ?as)"
    using assms by (simp add: distinct_map_filter)
  have agree: "\<forall>a\<in>set ?as. \<forall>b\<in>set (appts s). aid b = aid a \<longrightarrow> b = a"
    using distinct_aid_eq [OF assms(1)] by auto
  have cond: "\<forall>b\<in>set (appts s).
      (aid b \<in> aid ` {a \<in> set ?as. past_threshold E now a}) = affected E now b"
    using distinct_aid_eq [OF assms(1)] by (auto simp: affected_def)
  have "map (\<lambda>b. if aid b \<in> aid ` {a \<in> set ?as. past_threshold E now a}
                 then b\<lparr>status := ''not_appeared''\<rparr> else b) (appts s)
        = map (\<lambda>b. if affected E now b then b\<lparr>status := ''not_appeared''\<rparr> else b) (appts s)"
    using cond by simp
  moreover have "filter (past_threshold E now) ?as = filter (affected E now) (appts s)"
    unfolding filter_filter by (rule filter_cong) (auto simp: affected_def)
  moreover have v: "\<forall>a\<in>set ?as. appointment_valid a"
    using assms(2) by simp
  ultimately show ?thesis
    unfolding updateMissedAppointments_def mark_missed_result [OF d agree v] by simp
qed

lemma find_map_distinct:
  "distinct (map aid xs) \<Longrightarrow> a \<in> set xs \<Longrightarrow> (\<forall>x. aid (g x) = aid x) \<Longrightarrow>
   find (\<lambda>x. aid x = aid a) (map g xs) = Some (g a)"
  by (induction xs) (auto simp: image_iff)

lemma filter_aid_distinct:
  "distinct (map aid xs) \<Longrightarrow> a \<in> set xs \<Longrightarrow>
   filter (\<lambda>b. P b \<and> aid b = aid a) xs = (if P a then [a] else [])"
proof (induction xs)
  case Nil
  then show ?case by simp
next
  case (Cons x xs)
  have none: "filter (\<lambda>b. P b \<and> aid b = aid a) xs = []" if "aid a \<notin> aid ` set xs"
  proof -
    have "\<forall>x\<in>set xs. aid x \<noteq> aid a"
      using that by (metis imageI)
    then show ?thesis by (simp add: filter_empty_conv)
  qed
  show ?case
  proof (cases "a = x")
    case True
    then show ?thesis using Cons.prems none by auto
  next
    case False
    then have "a \<in> set xs" "aid x \<noteq> aid a" using Cons.prems by (auto simp: image_iff)
    then show ?thesis using Cons by simp
  qed
qed

text \<open>
  The body of the function, had the file parsed: on a collection whose documents have
  distinct ids and pass the validation, a run at \<open>now\<close> marks each affected appointment
  \<^verbatim>\<open>not_appeared\<close> and appends exactly one audit entry for it; the other appointments
  are unchanged and get no entry. A second run at the same \<open>now\<close> on the result changes
  nothing, and a second run at any other time leaves the appointments that the first
  run marked as they are and appends no entry for them.
\<close>

lemma sweep_body_idempotent:
  assumes "distinct (map aid (appts s))" and "\<forall>a\<in>set (appts s). appointment_valid a"
  shows "let s1 = updateMissedAppointments E now s;
             new = drop (length (activities s)) (activities s1)
         in activities s1 = activities s @ new
          \<and> (\<forall>a\<in>set (appts s).
                if affected E now a
                then findAppointmentById (aid a) s1 = Some (a\<lparr>status := ''not_appeared''\<rparr>)
                   \<and> filter (\<lambda>x. subjectId x = Some (aid a)) new = [missed_activity a]
                else findAppointmentById (aid a) s1 = Some a
                   \<and> filter (\<lambda>x. subjectId x = Some (aid a)) new = [])
          \<and> updateMissedAppointments E now s1 = s1
          \<and> (\<forall>a\<in>set (appts s). affected E now a \<longrightarrow>
                findAppointmentById (aid a) (updateMissedAppointments E' now' s1)
                  = Some (a\<lparr>status := ''not_appeared''\<rparr>)
                \<and> filter (\<lambda>x. subjectId x = Some (aid a))
                     (drop (length (activities s1))
                        (activities (updateMissedAppointments E' now' s1))) = [])"
proof -
  let ?g = "\<lambda>b. if affected E now b then b\<lparr>status := ''not_appeared''\<rparr> else b"
  let ?new = "map missed_activity (filter (affected E now) (appts s))"
  let ?s1 = "s\<lparr>appts := map ?g (appts s), activities := activities s @ ?new\<rparr>"
  have s1: "updateMissedAppointments E now s = ?s1"
    using sweep_result [OF assms] .
  have v1: "\<forall>a\<in>set (appts ?s1). appointment_valid a"
    using assms(2) by (auto simp: not_appeared_valid)
  have new: "drop (length (activities s)) (activities ?s1) = ?new" by simp
  have per: "\<forall>a\<in>set (appts s).
                if affected E now a
                then findAppointmentById (aid a) ?s1 = Some (a\<lparr>status := ''not_appeared''\<rparr>)
                   \<and> filter (\<lambda>x. subjectId x = Some (aid a)) ?new = [missed_activity a]
                else findAppointmentById (aid a) ?s1 = Some a
                   \<and> filter (\<lambda>x. subjectId x = Some (aid a)) ?new = []"
  proof
    fix a assume a: "a \<in> set (appts s)"
    have f: "findAppointmentById (aid a) ?s1 = Some (?g a)"
      using find_map_distinct [OF assms(1) a, of ?g] by (simp add: findAppointmentById_def)
    have "filter (\<lambda>x. subjectId x = Some (aid a)) ?new
          = map missed_activity (filter (\<lambda>b. affected E now b \<and> aid b = aid a) (appts s))"
      by (simp add: filter_map comp_def missed_activity_def blank_activity_def conj_commute)
    also have "\<dots> = (if affected E now a then [missed_activity a] else [])"
      using filter_aid_distinct [OF assms(1) a, of "affected E now"] by simp
    finally show "if affected E now a
                then findAppointmentById (aid a) ?s1 = Some (a\<lparr>status := ''not_appeared''\<rparr>)
                   \<and> filter (\<lambda>x. subjectId x = Some (aid a)) ?new = [missed_activity a]
                else findAppointmentById (aid a) ?s1 = Some a
                   \<and> filter (\<lambda>x. subjectId x = Some (aid a)) ?new = []"
      using f by simp
  qed
  have "\<forall>a\<in>set (filter (sweep_query (format_day E now)) (appts ?s1)). \<not> past_threshold E now a"
    by (auto simp: affected_def sweep_query_def split: if_splits)
  then have again: "updateMissedAppointments E now ?s1 = ?s1"
    unfolding updateMissedAppointments_def by (rule mark_missed_none)
  have d1: "distinct (map aid (appts ?s1))"
    using assms(1) by (simp add: comp_def if_distrib [of aid] cong: if_cong)
  let ?g' = "\<lambda>b. if affected E' now' b then b\<lparr>status := ''not_appeared''\<rparr> else b"
  let ?new' = "map missed_activity (filter (affected E' now') (appts ?s1))"
  have s2: "updateMissedAppointments E' now' ?s1
            = ?s1\<lparr>appts := map ?g' (appts ?s1), activities := activities ?s1 @ ?new'\<rparr>"
    using sweep_result [OF d1 v1] .
  have later: "\<forall>a\<in>set (appts s). affected E now a \<longrightarrow>
                findAppointmentById (aid a) (updateMissedAppointments E' now' ?s1)
                  = Some (a\<lparr>status := ''not_appeared''\<rparr>)
                \<and> filter (\<lambda>x. subjectId x = Some (aid a))
                     (drop (length (activities ?s1))
                        (activities (updateMissedAppointments E' now' ?s1))) = []"
  proof (intro ballI impI)
    fix a assume a: "a \<in> set (appts s)" and aff: "affected E now a"
    let ?m = "a\<lparr>status := ''not_appeared''\<rparr>"
    have m: "?m \<in> set (appts ?s1)"
      using a aff by (auto simp: image_iff intro!: bexI [of _ a])
    have na: "\<not> affected E' now' ?m"
      by (simp add: affected_def sweep_query_def)
    have "find (\<lambda>x. aid x = aid ?m) (map ?g' (appts ?s1)) = Some (?g' ?m)"
      by (rule find_map_distinct [OF d1 m]) simp
    then have f: "findAppointmentById (aid a) (updateMissedAppointments E' now' ?s1) = Some ?m"
      unfolding s2 using na by (simp add: findAppointmentById_def)
    have "filter (\<lambda>x. subjectId x = Some (aid a)) ?new'
          = map missed_activity (filter (\<lambda>b. affected E' now' b \<and> aid b = aid ?m) (appts ?s1))"
      by (simp add: filter_map comp_def missed_activity_def blank_activity_def conj_commute)
    also have "\<dots> = []"
      using filter_aid_distinct [OF d1 m, of "affected E' now'"] na by simp
    finally have "filter (\<lambda>x. subjectId x = Some (aid a))
                     (drop (length (activities ?s1))
                        (activities (updateMissedAppointments E' now' ?s1))) = []"
      unfolding s2 by simp
    then show "findAppointmentById (aid a) (updateMissedAppointments E' now' ?s1) = Some ?m
               \<and> filter (\<lambda>x. subjectId x = Some (aid a))
                     (drop (length (activities ?s1))
                        (activities (updateMissedAppointments E' now' ?s1))) = []"
      using f by simp
  qed
  show ?thesis
    unfolding Let_def s1 new using per again later by simp
qed

lemma ex_sweep_affected: "affected ex_env 2000000 ex_confirmed"
  by (simp add: affected_def sweep_query_def past_threshold_def ex_env_def ex_confirmed_def)

text \<open>The header comment ends on its eighth line, at the \<^verbatim>\<open>*/\<close> of \<^verbatim>\<open>*/15\<close>, and the
  rest of that line is no program.\<close>

lemma header_closes_early:
  "comment_rest (drop 2 (hd script_header) # tl script_header)
   = Some ''15 * * * * node /path/to/backend/scripts/updateMissedAppointments.js''"
  by (simp add: script_header_def)

lemma script_does_not_parse: "\<not> script_parses"
  by (simp add: script_parses_def script_header_def)

lemma run_script_no_effect: "run_script E now s = s"
  by (simp add: run_script_def script_does_not_parse)

text \<open>
  C6 at a failing input: a confirmed appointment of 2024-06-01, 09:00, is overdue at the
  time of the run. The script file does not parse, so the run makes no transition and
  appends no audit entry: the appointment is still \<^verbatim>\<open>confirmed\<close>.
\<close>

theorem sweep_script_makes_no_transition:
  "affected ex_env 2000000 ex_confirmed
   \<and> appts (run_script ex_env 2000000 ex_sweep_db) = [ex_confirmed]
   \<and> status ex_confirmed = ''confirmed''
   \<and> activities (run_script ex_env 2000000 ex_sweep_db) = []"
  using ex_sweep_affected
  by (simp add: run_script_no_effect ex_sweep_db_def) (simp add: ex_confirmed_def)

subsection \<open>Status update\<close>

lemma status_sync_appts: "appts (fst (status_sync D f now u st a s)) = appts s"
  by (simp add: status_sync_def Let_def split: option.splits)

lemma status_sync_fault:
  "patient_find_throws f \<or> patient_save_throws f \<Longrightarrow>
   patients (fst (status_sync D f now u st a s)) = patients s"
  by (auto simp: status_sync_def Let_def split: option.splits)

lemma updateAppointmentStatus_accepted:
  assumes "findAppointmentById k s = Some a"
    and "b_status b \<in> set appointment_statuses"
  shows "\<exists>a'. fst (updateAppointmentStatus D f now u (Some k) b s)
               = \<lparr>code = 200, message = None, warning = None, appt = Some a'\<rparr>
           \<and> findAppointmentById k (snd (updateAppointmentStatus D f now u (Some k) b s)) = Some a'
           \<and> status a' = b_status b
           \<and> (patient_find_throws f \<or> patient_save_throws f \<longrightarrow>
                patients (snd (updateAppointmentStatus D f now u (Some k) b s)) = patients s)"
proof -
  let ?a1 = "a\<lparr>status := b_status b\<rparr>"
  let ?a = "if b_status b = ''not_appeared'' \<and> truthy (b_noShowReason b)
            then ?a1\<lparr>noShowReason := the (b_noShowReason b)\<rparr> else ?a1"
  let ?s1 = "saveAppointment ?a s"
  let ?sync = "status_sync D f now u (b_status b) ?a ?s1"
  have run: "updateAppointmentStatus D f now u (Some k) b s
             = (\<lparr>code = 200, message = None, warning = None, appt = Some ?a\<rparr>,
                logActivity (status_activity u ?a (b_status b) (snd ?sync)) (fst ?sync))"
    using assms by (simp add: updateAppointmentStatus_def Let_def split_beta)
  have aid: "aid ?a = k"
    using findAppointmentById_aid [OF assms(1)] by simp
  have "findAppointmentById k ?s1 = Some ?a"
    using findAppointmentById_save [OF assms(1) aid] .
  then have "findAppointmentById k (logActivity (status_activity u ?a (b_status b) (snd ?sync)) (fst ?sync))
             = Some ?a"
    by (simp add: findAppointmentById_def status_sync_appts)
  moreover have "status ?a = b_status b" by simp
  moreover have "patient_find_throws f \<or> patient_save_throws f \<longrightarrow>
      patients (logActivity (status_activity u ?a (b_status b) (snd ?sync)) (fst ?sync)) = patients s"
    using status_sync_fault [of f D now u "b_status b" ?a ?s1] by auto
  ultimately show ?thesis unfolding run by (intro exI [of _ ?a]) simp
qed

lemma outcome_sync_failure:
  assumes "findAppointmentById k s = Some a"
    and "outcome_permission u a s = None"
    and "b_treatmentOutcome b \<in> {Some ''successful'', Some ''unsuccessful'', Some ''ongoing''}"
    and "appointment_valid a" and "\<not> cast_fails D (b_treatmentEndDate b)"
    and "patientId a = Some j"
    and "patient_find_throws f \<or> findPatientById j s = None
         \<or> (patient_save_throws f
             \<and> (\<exists>p. findPatientById j s = Some p
                      \<and> (b_treatmentOutcome b = Some ''ongoing'' \<longrightarrow> pstatus p \<noteq> ''active'')))"
  shows "\<exists>w. updateTreatmentOutcome D f currentDate stamp u (Some k) b s
             = (\<lparr>code = 200, message = Some (fst w), warning = Some (snd w),
                 appt = Some (apply_outcome D b a)\<rparr>, saveAppointment (apply_outcome D b a) s)"
proof -
  let ?a = "apply_outcome D b a"
  let ?s1 = "saveAppointment ?a s"
  have ok: "enum_ok validOutcomes (b_treatmentOutcome b)" "truthy (b_treatmentOutcome b)"
    using assms(3) by (auto simp: enum_ok_def validOutcomes_def truthy_def)
  have va: "appointment_valid ?a"
    using apply_outcome_valid [OF assms(4) ok(1)] .
  have fp: "findPatientById j ?s1 = findPatientById j s"
    by (simp add: findPatientById_def)
  have pa: "patientId ?a = Some j" using assms(6) by simp
  show ?thesis
  proof (cases "b_treatmentOutcome b = Some ''ongoing''")
    case True
    have run: "updateTreatmentOutcome D f currentDate stamp u (Some k) b s
               = outcome_ongoing f stamp u ?a b ?s1"
      using assms(1,2,5) ok va True by (simp add: updateTreatmentOutcome_def Let_def)
    show ?thesis
      unfolding run using assms(7) True pa fp
      by (auto simp: outcome_ongoing_def sync_failed_reply_def not_found_reply_def
            outcome_reply_def split: option.splits)
  next
    case False
    then have so: "b_treatmentOutcome b = Some ''successful'' \<or> b_treatmentOutcome b = Some ''unsuccessful''"
      using assms(3) by auto
    have run: "updateTreatmentOutcome D f currentDate stamp u (Some k) b s
               = outcome_deactivate f currentDate stamp u ?a b ?s1"
      using assms(1,2,5) ok va so by (auto simp: updateTreatmentOutcome_def Let_def)
    show ?thesis
      unfolding run using assms(7) pa fp
      by (auto simp: outcome_deactivate_def sync_failed_reply_def not_found_reply_def
            outcome_reply_def split: option.splits)
  qed
qed

text \<open>
  C5, as the code has it. When the lookup or the save of the patient fails while a
  treatment outcome is recorded (the lookup throws, finds no record, or the save throws)
  after the appointment was saved (the stored appointment passes the validation of its
  schema and a \<^verbatim>\<open>treatmentEndDate\<close> of the request is a date), the answer is a success
  with a warning, the appointment keeps the recorded outcome and status, and no patient
  changes. A status update is answered with the updated
  appointment and never with a warning, whether the patient step failed or not; its new
  status stays stored and a failed patient step leaves the patients as they were.
\<close>

theorem patient_failure_keeps_appointment:
  "(findAppointmentById k s = Some a \<and> outcome_permission u a s = None
      \<and> b_treatmentOutcome b \<in> {Some ''successful'', Some ''unsuccessful'', Some ''ongoing''}
      \<and> appointment_valid a \<and> \<not> cast_fails D (b_treatmentEndDate b)
      \<and> patientId a = Some j
      \<and> (patient_find_throws f \<or> findPatientById j s = None
           \<or> (patient_save_throws f
               \<and> (\<exists>p. findPatientById j s = Some p
                        \<and> (b_treatmentOutcome b = Some ''ongoing'' \<longrightarrow> pstatus p \<noteq> ''active''))))
    \<longrightarrow> (let (r, s') = updateTreatmentOutcome D f currentDate stamp u (Some k) b s
         in code r = 200 \<and> warning r \<noteq> None \<and> appt r = Some (apply_outcome D b a)
          \<and> findAppointmentById k s' = Some (apply_outcome D b a)
          \<and> patients s' = patients s))
   \<and> (findAppointmentById k s = Some a \<and> b_status sb \<in> set appointment_statuses
    \<longrightarrow> (let (r, s') = updateAppointmentStatus D f now u (Some k) sb s
         in code r = 200 \<and> warning r = None
          \<and> (\<exists>a'. appt r = Some a' \<and> findAppointmentById k s' = Some a'
                   \<and> status a' = b_status sb)
          \<and> (patient_find_throws f \<or> patient_save_throws f \<longrightarrow> patients s' = patients s)))"
proof (intro conjI impI)
  assume h: "findAppointmentById k s = Some a \<and> outcome_permission u a s = None
      \<and> b_treatmentOutcome b \<in> {Some ''successful'', Some ''unsuccessful'', Some ''ongoing''}
      \<and> appointment_valid a \<and> \<not> cast_fails D (b_treatmentEndDate b)
      \<and> patientId a = Some j
      \<and> (patient_find_throws f \<or> findPatientById j s = None
           \<or> (patient_save_throws f
               \<and> (\<exists>p. findPatientById j s = Some p
                        \<and> (b_treatmentOutcome b = Some ''ongoing'' \<longrightarrow> pstatus p \<noteq> ''active''))))"
  then obtain w where run: "updateTreatmentOutcome D f currentDate stamp u (Some k) b s
             = (\<lparr>code = 200, message = Some (fst w), warning = Some (snd w),
                 appt = Some (apply_outcome D b a)\<rparr>, saveAppointment (apply_outcome D b a) s)"
    using outcome_sync_failure [of k s a u b D j f currentDate stamp] by blast
  from h have fa: "findAppointmentById k s = Some a" by simp
  have "aid (apply_outcome D b a) = k"
    using findAppointmentById_aid [OF fa] by simp
  then have "findAppointmentById k (saveAppointment (apply_outcome D b a) s) = Some (apply_outcome D b a)"
    using findAppointmentById_save [OF fa] by blast
  then show "let (r, s') = updateTreatmentOutcome D f currentDate stamp u (Some k) b s
         in code r = 200 \<and> warning r \<noteq> None \<and> appt r = Some (apply_outcome D b a)
          \<and> findAppointmentById k s' = Some (apply_outcome D b a)
          \<and> patients s' = patients s"
    unfolding run by simp
next
  assume h: "findAppointmentById k s = Some a \<and> b_status sb \<in> set appointment_statuses"
  obtain r s' where rs: "updateAppointmentStatus D f now u (Some k) sb s = (r, s')"
    by (cases "updateAppointmentStatus D f now u (Some k) sb s")
  from updateAppointmentStatus_accepted [of k s a sb D f now u] h rs
  show "let (r, s') = updateAppointmentStatus D f now u (Some k) sb s
         in code r = 200 \<and> warning r = None
          \<and> (\<exists>a'. appt r = Some a' \<and> findAppointmentById k s' = Some a'
                   \<and> status a' = b_status sb)
          \<and> (patient_find_throws f \<or> patient_save_throws f \<longrightarrow> patients s' = patients s)"
    by auto
qed

lemma ex_inactive_fields [simp]:
  "appts ex_inactive_db = [ex_appt]"
  "patients ex_inactive_db = [ex_patient\<lparr>pstatus := ''inactive''\<rparr>]"
  "activities ex_inactive_db = []" "doctors ex_inactive_db = [ex_doctor]"
  "users ex_inactive_db = [ex_staff, ex_doctor_account]" "next_oid ex_inactive_db = 100"
  by (simp_all add: ex_inactive_db_def)

lemma ex_inactive_find_appt: "findAppointmentById 10 ex_inactive_db = Some ex_appt"
  by (simp add: findAppointmentById_def)

theorem patient_failure_keeps_appointment_witness:
  "(let (r, s') = updateTreatmentOutcome ex_dates save_fault 5000 6000 ex_staff (Some 10)
                    (ex_outcome (Some ''successful'')) ex_db
    in code r = 200 \<and> warning r \<noteq> None
     \<and> findAppointmentById 10 s' = Some (apply_outcome ex_dates (ex_outcome (Some ''successful'')) ex_appt)
     \<and> patients s' = patients ex_db)
   \<and> (let (r, s') = updateAppointmentStatus ex_dates save_fault 5000 ex_staff (Some 10) ex_confirm
                       ex_inactive_db
      in code r = 200 \<and> warning r = None
       \<and> (\<exists>a'. findAppointmentById 10 s' = Some a' \<and> status a' = ''confirmed'')
       \<and> patients s' = patients ex_inactive_db)"
proof -
  have 1: "findAppointmentById 10 ex_db = Some ex_appt
      \<and> outcome_permission ex_staff ex_appt ex_db = None
      \<and> b_treatmentOutcome (ex_outcome (Some ''successful''))
          \<in> {Some ''successful'', Some ''unsuccessful'', Some ''ongoing''}
      \<and> appointment_valid ex_appt
      \<and> \<not> cast_fails ex_dates (b_treatmentEndDate (ex_outcome (Some ''successful'')))
      \<and> patientId ex_appt = Some 20
      \<and> (patient_find_throws save_fault \<or> findPatientById 20 ex_db = None
           \<or> (patient_save_throws save_fault
               \<and> (\<exists>p. findPatientById 20 ex_db = Some p
                   \<and> (b_treatmentOutcome (ex_outcome (Some ''successful'')) = Some ''ongoing''
                        \<longrightarrow> pstatus p \<noteq> ''active''))))"
    using ex_no_cast [of ex_dates "Some ''successful''"]
    by (simp add: ex_find_appt ex_permission ex_find_patient save_fault_def)
       (simp add: ex_outcome_def)
  have 2: "findAppointmentById 10 ex_inactive_db = Some ex_appt
      \<and> b_status ex_confirm \<in> set appointment_statuses"
    by (simp add: ex_inactive_find_appt ex_confirm_def appointment_statuses_def)
  have f: "patient_save_throws save_fault" "b_status ex_confirm = ''confirmed''"
    by (simp_all add: save_fault_def ex_confirm_def)
  show ?thesis
    using patient_failure_keeps_appointment
      [of 10 ex_db ex_appt ex_staff "ex_outcome (Some ''successful'')" ex_dates 20 save_fault
          5000 6000 ex_confirm 5000, THEN conjunct1, rule_format, OF 1]
      patient_failure_keeps_appointment
      [of 10 ex_inactive_db ex_appt ex_staff "ex_outcome (Some ''successful'')" ex_dates 20
          save_fault 5000 6000 ex_confirm 5000, THEN conjunct2, rule_format, OF 2] f
    by (auto simp: split_beta)
qed

text \<open>
  C5 as stated fails for the status update: with the save of the patient throwing, the
  update to \<^verbatim>\<open>confirmed\<close> of an inactive patient's appointment is answered with
  success and without a warning, while the patient stays inactive.
\<close>

theorem status_update_no_warning_counterexample:
  "patient_save_throws save_fault
   \<and> fst (updateAppointmentStatus ex_dates save_fault 5000 ex_staff (Some 10) ex_confirm ex_inactive_db)
     = \<lparr>code = 200, message = None, warning = None,
        appt = Some (ex_appt\<lparr>status := ''confirmed''\<rparr>)\<rparr>
   \<and> patients (snd (updateAppointmentStatus ex_dates save_fault 5000 ex_staff (Some 10) ex_confirm
                      ex_inactive_db))
     = [ex_patient\<lparr>pstatus := ''inactive''\<rparr>]"
  by (simp add: updateAppointmentStatus_def ex_inactive_find_appt ex_confirm_def
        appointment_statuses_def Let_def split_beta status_sync_def save_fault_def
        findPatientById_def saveAppointment_def)

text \<open>
  C9 at a failing input: a staff member confirms a pending appointment. The one audit
  entry appended has the action \<^verbatim>\<open>appointment_confirmed\<close>, and both its
  \<^verbatim>\<open>previousStatus\<close> and its \<^verbatim>\<open>newStatus\<close> are \<^verbatim>\<open>confirmed\<close>: the status before the
  transition, \<^verbatim>\<open>pending\<close>, is not recorded.
\<close>

theorem status_audit_previous_is_new:
  "status ex_appt = ''pending''
   \<and> map (\<lambda>x. (action x, map_of (metadata x) ''previousStatus'', map_of (metadata x) ''newStatus''))
       (activities (snd (updateAppointmentStatus ex_dates no_faults 5000 ex_staff (Some 10) ex_confirm ex_db)))
     = [(Some ''appointment_confirmed'', Some (JStr ''confirmed''), Some (JStr ''confirmed''))]"
  by (simp add: updateAppointmentStatus_def ex_find_appt ex_confirm_def
        appointment_statuses_def Let_def split_beta status_sync_def no_faults_def
        findPatientById_def saveAppointment_def savePatient_def pappt_statuses_def
        logActivity_def status_activity_def status_action_def blank_activity_def
        activity_valid_def enum_ok_def activity_actions_def activity_types_def
        activity_subjects_def or_default_def patient_valid_def pappt_valid_def
        sync_appointments_def ex_dates_def ex_patient_def)

text \<open>The audit entries of an outcome recording never pass the validation of the
  Activity schema: \<^verbatim>\<open>update_treatment\<close> is no value of \<^verbatim>\<open>type\<close>, and
  \<^verbatim>\<open>update_patient_status\<close> is no value of \<^verbatim>\<open>action\<close>.\<close>

lemma outcome_recording_no_audit:
  "activities (snd (updateTreatmentOutcome D f currentDate stamp u i b s)) = activities s"
  by (simp add: updateTreatmentOutcome_def outcome_deactivate_def outcome_ongoing_def
        outcome_finish_def logActivity_treatment logActivity_patient_status Let_def
        split: option.splits)

subsection \<open>Booking\<close>

lemma createAppointmentDoc_patients [simp]: "patients (createAppointmentDoc a s) = patients s"
  and createAppointmentDoc_appts [simp]: "appts (createAppointmentDoc a s) = appts s @ [a]"
  by (simp_all add: createAppointmentDoc_def)

lemma createPatientDoc_appts [simp]: "appts (createPatientDoc p s) = appts s"
  by (simp add: createPatientDoc_def)

lemma find_distinct_self:
  "distinct (map f xs) \<Longrightarrow> x \<in> set xs \<Longrightarrow> find (\<lambda>y. f y = f x) xs = Some x"
  by (induction xs) (auto simp: image_iff)

lemma find_in_set: "find P xs = Some x \<Longrightarrow> x \<in> set xs"
  by (induction xs) (auto split: if_splits)

lemma activate_valid:
  "pstatus p = ''inactive'' \<Longrightarrow>
   patient_valid (p\<lparr>pstatus := ''active'', lastStatusChangeDate := x\<rparr>) = patient_valid p"
  by (simp add: patient_valid_def)

lemma hospital_valid [simp]: "patient_valid (p\<lparr>hospital := x\<rparr>) = patient_valid p"
  by (simp add: patient_valid_def)




text \<open>An existing patient after the find-or-create step.\<close>

lemma book_patient_existing:
  assumes "findPatientByEmail em s = Some p" and "findPatientById (pid p) s = Some p"
  shows "(\<exists>m. book_patient now nm em h s = Inl m \<and> pstatus p = ''inactive'' \<and> \<not> patient_valid p)
       \<or> (\<exists>p' s1 c. book_patient now nm em h s = Inr (p', s1, c)
             \<and> findPatientById (pid p) s1 = Some p' \<and> pid p' = pid p
             \<and> (patient_valid p \<longrightarrow> patient_valid p')
             \<and> (if pstatus p = ''inactive'' then activated now p' else keeps_status p p'))"
proof (cases "pstatus p = ''inactive''")
  case True
  let ?p1 = "p\<lparr>pstatus := ''active'', lastStatusChangeDate := Some now\<rparr>"
  let ?p2 = "if hospital ?p1 = None then ?p1\<lparr>hospital := Some h\<rparr> else ?p1"
  have v: "patient_valid ?p2 = patient_valid p"
    using activate_valid [OF True, of "Some now"] by simp
  show ?thesis
  proof (cases "patient_valid p")
    case False
    then show ?thesis
      using assms(1) True v by (simp add: book_patient_def Let_def)
  next
    case valid: True
    have bp: "book_patient now nm em h s = Inr (?p2, savePatient ?p2 s, True)"
      using assms(1) True v valid by (simp add: book_patient_def Let_def)
    have "findPatientById (pid p) (savePatient ?p2 s) = Some ?p2"
      by (rule findPatientById_save [OF assms(2)]) simp
    then show ?thesis
      unfolding bp using True v valid by (auto simp: activated_def)
  qed
next
  case False
  have bp: "book_patient now nm em h s = Inr (p, s, False)"
    using assms(1) False by (simp add: book_patient_def)
  show ?thesis unfolding bp using False assms(2) by (auto simp: keeps_status_def)
qed

text \<open>What \<^verbatim>\<open>book_slot\<close> leaves of the patients, given the patient in hand.\<close>

lemma book_slot_after_patient:
  assumes "book_patient now nm em h s = Inr (p', s1, c)"
    and "findPatientById k s1 = Some p'" and "pid p' = k"
  shows "\<exists>q. findPatientById k (snd (book_slot D now u b d h dt tm nm em s)) = Some q
           \<and> pstatus q = pstatus p' \<and> lastStatusChangeDate q = lastStatusChangeDate p'"
proof -
  let ?a = "new_appointment (next_oid s1) d (pid p') h dt tm
              (or_default (bk_type b) ''consultation'') (or_default (bk_notes b) [])"
  let ?p = "p'\<lparr>appointments := appointments p'
              @ [\<lparr>pa_doctor = Some d, pa_date = D dt, pa_status = ''scheduled''\<rparr>]\<rparr>"
  have "patients (snd (book_slot D now u b d h dt tm nm em s)) = patients s1
      \<or> patients (snd (book_slot D now u b d h dt tm nm em s))
         = patients (savePatient ?p (createAppointmentDoc ?a s1))"
    using assms(1) by (simp add: book_slot_def Let_def)
  then show ?thesis
  proof
    assume "patients (snd (book_slot D now u b d h dt tm nm em s)) = patients s1"
    then have "findPatientById k (snd (book_slot D now u b d h dt tm nm em s)) = Some p'"
      using assms(2) by (simp add: findPatientById_def)
    then show ?thesis by simp
  next
    assume "patients (snd (book_slot D now u b d h dt tm nm em s))
         = patients (savePatient ?p (createAppointmentDoc ?a s1))"
    then have "findPatientById k (snd (book_slot D now u b d h dt tm nm em s))
          = findPatientById k (savePatient ?p (createAppointmentDoc ?a s1))"
      by (rule findPatientById_patients)
    also have "\<dots> = Some ?p"
    proof (rule findPatientById_save)
      show "findPatientById k (createAppointmentDoc ?a s1) = Some p'"
        using assms(2) by (simp add: findPatientById_def)
      show "pid ?p = k" using assms(3) by simp
    qed
    finally show ?thesis by simp
  qed
qed

lemma book_slot_patient:
  assumes "findPatientByEmail em s = Some p" and "findPatientById (pid p) s = Some p"
  shows "\<exists>p'. findPatientById (pid p) (snd (book_slot D now u b d h dt tm nm em s)) = Some p'
           \<and> (pstatus p \<noteq> ''inactive'' \<longrightarrow> keeps_status p p')
           \<and> (pstatus p = ''inactive'' \<and> patient_valid p \<longrightarrow> activated now p')"
  using book_patient_existing [OF assms, of now nm h]
proof
  assume "\<exists>m. book_patient now nm em h s = Inl m \<and> pstatus p = ''inactive'' \<and> \<not> patient_valid p"
  then show ?thesis
    using assms(2) by (auto simp: book_slot_def)
next
  assume "\<exists>p' s1 c. book_patient now nm em h s = Inr (p', s1, c)
             \<and> findPatientById (pid p) s1 = Some p' \<and> pid p' = pid p
             \<and> (patient_valid p \<longrightarrow> patient_valid p')
             \<and> (if pstatus p = ''inactive'' then activated now p' else keeps_status p p')"
  then obtain p' s1 c where bp: "book_patient now nm em h s = Inr (p', s1, c)"
    and fp: "findPatientById (pid p) s1 = Some p'" and pid: "pid p' = pid p"
    and st: "if pstatus p = ''inactive'' then activated now p' else keeps_status p p'"
    by blast
  from book_slot_after_patient [OF bp fp pid, of D u b d dt tm]
  obtain q where "findPatientById (pid p) (snd (book_slot D now u b d h dt tm nm em s)) = Some q"
    and "pstatus q = pstatus p'" "lastStatusChangeDate q = lastStatusChangeDate p'"
    by blast
  then show ?thesis
    using st by (auto simp: activated_def keeps_status_def split: if_splits)
qed

lemma passes_validationD:
  assumes "passes_validation b s"
  shows "\<exists>h pd. bk_hospitalId b = Some h \<and> bk_patientDetails b = Some pd
           \<and> the (bk_date b) \<noteq> [] \<and> the (bk_time b) \<noteq> []
           \<and> the (pd_name pd) \<noteq> [] \<and> the (pd_email pd) \<noteq> []
           \<and> bookAppointment D now u b s
             = book_slot D now u b (the (bk_doctorId b)) h (the (bk_date b)) (the (bk_time b))
                 (the (pd_name pd)) (the (pd_email pd)) s"
  using assms
  by (auto simp: passes_validation_def bookAppointment_def truthy_def split: option.splits)


subsection \<open>The activation rule\<close>

lemma update_first_valid:
  "list_all pappt_valid xs \<Longrightarrow>
   list_all pappt_valid (update_first P (\<lambda>x. x\<lparr>pa_status := ''scheduled''\<rparr>) xs)"
  by (induction xs) (auto simp: pappt_valid_def pappt_statuses_def)

lemma sync_confirmed_valid:
  assumes "patient_valid q" and "D (date a) \<noteq> None"
  shows "patient_valid (q\<lparr>appointments := sync_appointments D ''confirmed'' a (appointments q)\<rparr>)"
  using assms update_first_valid [of "appointments q"]
  by (auto simp: patient_valid_def sync_appointments_def pappt_valid_def pappt_statuses_def
        Let_def)

lemma status_sync_confirmed:
  assumes "patientId a = Some j" and "findPatientById j s = Some q"
  shows "\<exists>q'. findPatientById j (fst (status_sync D f now u ''confirmed'' a s)) = Some q'
           \<and> (pstatus q \<noteq> ''inactive'' \<longrightarrow> keeps_status q q')
           \<and> (pstatus q = ''inactive'' \<and> \<not> patient_find_throws f \<and> \<not> patient_save_throws f
                \<and> patient_valid q \<and> D (date a) \<noteq> None \<longrightarrow> activated now q')"
proof -
  let ?q1 = "if pstatus q = ''inactive''
             then q\<lparr>pstatus := ''active'', lastStatusChangeDate := Some now\<rparr> else q"
  let ?q2 = "?q1\<lparr>appointments := sync_appointments D ''confirmed'' a (appointments ?q1)\<rparr>"
  let ?ok = "\<not> patient_find_throws f \<and> \<not> patient_save_throws f \<and> patient_valid ?q2"
  have pid: "pid ?q2 = j"
    using findPatientById_pid [OF assms(2)] by simp
  show ?thesis
  proof (cases ?ok)
    case True
    then have "patients (fst (status_sync D f now u ''confirmed'' a s))
               = patients (savePatient ?q2 s)"
      using assms by (simp add: status_sync_def Let_def)
    then have "findPatientById j (fst (status_sync D f now u ''confirmed'' a s))
          = findPatientById j (savePatient ?q2 s)"
      by (rule findPatientById_patients)
    also have "\<dots> = Some ?q2"
      by (rule findPatientById_save [OF assms(2) pid])
    finally show ?thesis
      by (intro exI [of _ ?q2]) (simp add: keeps_status_def activated_def)
  next
    case False
    then have "patients (fst (status_sync D f now u ''confirmed'' a s)) = patients s"
      using assms by (auto simp: status_sync_def Let_def)
    then have f: "findPatientById j (fst (status_sync D f now u ''confirmed'' a s)) = Some q"
      using assms(2) by (simp add: findPatientById_def)
    have "\<not> (pstatus q = ''inactive'' \<and> \<not> patient_find_throws f \<and> \<not> patient_save_throws f
                \<and> patient_valid q \<and> D (date a) \<noteq> None)"
    proof
      assume h: "pstatus q = ''inactive'' \<and> \<not> patient_find_throws f \<and> \<not> patient_save_throws f
                \<and> patient_valid q \<and> D (date a) \<noteq> None"
      then have "patient_valid ?q1"
        using activate_valid [of q "Some now"] by simp
      then have "patient_valid ?q2"
        using sync_confirmed_valid [of ?q1 D a] h by simp
      then show False using False h by simp
    qed
    then show ?thesis using f by (auto simp: keeps_status_def)
  qed
qed

lemma activate_patient_rule:
  assumes "findPatientById j s = Some q"
  shows "\<exists>q'. findPatientById j (fst (activate_patient f now j s)) = Some q'
           \<and> (pstatus q \<noteq> ''inactive'' \<longrightarrow> keeps_status q q')
           \<and> (pstatus q = ''inactive'' \<and> \<not> patient_find_throws f \<and> \<not> patient_save_throws f
                \<and> patient_valid q \<longrightarrow> activated now q')"
proof (cases "pstatus q = ''inactive'' \<and> \<not> patient_find_throws f \<and> \<not> patient_save_throws f
                \<and> patient_valid q")
  case True
  let ?q = "q\<lparr>pstatus := ''active'', lastStatusChangeDate := Some now\<rparr>"
  have "patient_valid ?q" using True activate_valid [of q "Some now"] by simp
  then have "fst (activate_patient f now j s) = savePatient ?q s"
    using True assms by (simp add: activate_patient_def Let_def)
  moreover have "findPatientById j (savePatient ?q s) = Some ?q"
    by (rule findPatientById_save [OF assms]) (simp add: findPatientById_pid [OF assms])
  ultimately show ?thesis
    using True by (intro exI [of _ ?q]) (simp add: activated_def)
next
  case False
  show ?thesis
  proof (cases "pstatus q = ''inactive''")
    case inactive: True
    then have "\<not> patient_valid (q\<lparr>pstatus := ''active'', lastStatusChangeDate := Some now\<rparr>)
               \<or> patient_find_throws f \<or> patient_save_throws f"
      using False activate_valid [of q "Some now"] by auto
    then have "fst (activate_patient f now j s) = s"
      using assms by (auto simp: activate_patient_def Let_def)
    then show ?thesis using assms False inactive by (auto simp: keeps_status_def)
  next
    case active: False
    then have "fst (activate_patient f now j s) = s"
      using assms by (simp add: activate_patient_def)
    then show ?thesis using assms active by (simp add: keeps_status_def)
  qed
qed

lemma checkInPatient_patients: "patients (snd (checkInPatient f u i s)) = patients s"
  by (simp add: checkInPatient_def Let_def split: option.splits)

lemma createReport_patients: "patients (snd (createReport D u b s)) = patients s"
  by (simp add: createReport_def Let_def createActivity_def split: option.splits prod.splits)

text \<open>
  C7. The handlers that put an appointment into \<^verbatim>\<open>pending\<close> or \<^verbatim>\<open>confirmed\<close>, and
  the patient of the appointment. In \<^verbatim>\<open>bookAppointment\<close> (a request that passes the
  checks of its fields and of the doctor, for the e-mail of an existing patient), in
  \<^verbatim>\<open>updateAppointmentStatus\<close> to \<^verbatim>\<open>confirmed\<close>, in \<^verbatim>\<open>confirmAppointment\<close> and in
  \<^verbatim>\<open>createAppointment\<close>, a patient who is not inactive keeps status and
  \<^verbatim>\<open>lastStatusChangeDate\<close>, and an inactive patient becomes active with
  \<^verbatim>\<open>lastStatusChangeDate\<close> the time of the call when the save of the patient goes
  through (no call to the patient collection throws, the stored patient passes the
  validation of its schema, and in the status update the date of the appointment is a
  date). \<^verbatim>\<open>checkInPatient\<close> and the follow-up of \<^verbatim>\<open>createReport\<close> write no patient.
\<close>

theorem activation_idempotent:
  "(passes_validation b s \<and> distinct (map pid (patients s))
      \<and> findPatientByEmail (the (pd_email (the (bk_patientDetails b)))) s = Some p
    \<longrightarrow> (\<exists>p'. findPatientById (pid p) (snd (bookAppointment D now ru b s)) = Some p'
           \<and> (pstatus p \<noteq> ''inactive'' \<longrightarrow> keeps_status p p')
           \<and> (pstatus p = ''inactive'' \<and> patient_valid p \<longrightarrow> activated now p')))
   \<and> (findAppointmentById k s = Some a \<and> patientId a = Some j \<and> findPatientById j s = Some q
    \<longrightarrow> (\<exists>q'. findPatientById j
                 (snd (updateAppointmentStatus D f now u (Some k)
                         \<lparr>b_status = ''confirmed'', b_noShowReason = r\<rparr> s)) = Some q'
           \<and> (pstatus q \<noteq> ''inactive'' \<longrightarrow> keeps_status q q')
           \<and> (pstatus q = ''inactive'' \<and> \<not> patient_find_throws f \<and> \<not> patient_save_throws f
                \<and> patient_valid q \<and> D (date a) \<noteq> None \<longrightarrow> activated now q'))
      \<and> (\<exists>q'. findPatientById j (snd (confirmAppointment f now u (Some k) s)) = Some q'
           \<and> (pstatus q \<noteq> ''inactive'' \<longrightarrow> keeps_status q q')
           \<and> (pstatus q = ''inactive'' \<and> \<not> patient_find_throws f \<and> \<not> patient_save_throws f
                \<and> patient_valid q \<longrightarrow> activated now q')))
   \<and> (cb_patientId cb = Some j \<and> findPatientById j s = Some q
    \<longrightarrow> (\<exists>q'. findPatientById j (snd (createAppointment f now u cb s)) = Some q'
           \<and> (pstatus q \<noteq> ''inactive'' \<longrightarrow> keeps_status q q')
           \<and> (pstatus q = ''inactive'' \<and> code (fst (createAppointment f now u cb s)) = 201
                \<and> \<not> patient_find_throws f \<and> \<not> patient_save_throws f
                \<and> patient_valid q \<longrightarrow> activated now q')))
   \<and> patients (snd (checkInPatient f u i s)) = patients s
   \<and> patients (snd (createReport D u rb s)) = patients s"
proof -
  have A: "\<exists>p'. findPatientById (pid p) (snd (bookAppointment D now ru b s)) = Some p'
           \<and> (pstatus p \<noteq> ''inactive'' \<longrightarrow> keeps_status p p')
           \<and> (pstatus p = ''inactive'' \<and> patient_valid p \<longrightarrow> activated now p')"
    if h: "passes_validation b s \<and> distinct (map pid (patients s))
      \<and> findPatientByEmail (the (pd_email (the (bk_patientDetails b)))) s = Some p"
  proof -
    from h passes_validationD [of b s D now ru]
    obtain hh pd where pd: "bk_patientDetails b = Some pd"
      and run: "bookAppointment D now ru b s
        = book_slot D now ru b (the (bk_doctorId b)) hh (the (bk_date b)) (the (bk_time b))
            (the (pd_name pd)) (the (pd_email pd)) s"
      by blast
    from h pd have e: "findPatientByEmail (the (pd_email pd)) s = Some p" by simp
    then have "p \<in> set (patients s)"
      unfolding findPatientByEmail_def by (rule find_in_set)
    then have i: "findPatientById (pid p) s = Some p"
      using h find_distinct_self [of pid "patients s" p] by (simp add: findPatientById_def)
    show ?thesis
      unfolding run by (rule book_slot_patient [OF e i])
  qed
  have B: "(\<exists>q'. findPatientById j
                 (snd (updateAppointmentStatus D f now u (Some k)
                         \<lparr>b_status = ''confirmed'', b_noShowReason = r\<rparr> s)) = Some q'
           \<and> (pstatus q \<noteq> ''inactive'' \<longrightarrow> keeps_status q q')
           \<and> (pstatus q = ''inactive'' \<and> \<not> patient_find_throws f \<and> \<not> patient_save_throws f
                \<and> patient_valid q \<and> D (date a) \<noteq> None \<longrightarrow> activated now q'))
      \<and> (\<exists>q'. findPatientById j (snd (confirmAppointment f now u (Some k) s)) = Some q'
           \<and> (pstatus q \<noteq> ''inactive'' \<longrightarrow> keeps_status q q')
           \<and> (pstatus q = ''inactive'' \<and> \<not> patient_find_throws f \<and> \<not> patient_save_throws f
                \<and> patient_valid q \<longrightarrow> activated now q'))"
    if h: "findAppointmentById k s = Some a \<and> patientId a = Some j \<and> findPatientById j s = Some q"
  proof
    let ?a = "a\<lparr>status := ''confirmed''\<rparr>"
    let ?s1 = "saveAppointment ?a s"
    let ?sync = "status_sync D f now u ''confirmed'' ?a ?s1"
    have run: "snd (updateAppointmentStatus D f now u (Some k)
                      \<lparr>b_status = ''confirmed'', b_noShowReason = r\<rparr> s)
               = logActivity (status_activity u ?a ''confirmed'' (snd ?sync)) (fst ?sync)"
      using h by (simp add: updateAppointmentStatus_def appointment_statuses_def Let_def split_beta)
    have fq: "findPatientById j ?s1 = Some q"
      using h by (simp add: findPatientById_def)
    have pa: "patientId ?a = Some j" using h by simp
    from status_sync_confirmed [OF pa fq, of D f now u]
    obtain q' where "findPatientById j (fst ?sync) = Some q'"
      and "pstatus q \<noteq> ''inactive'' \<longrightarrow> keeps_status q q'"
      and "pstatus q = ''inactive'' \<and> \<not> patient_find_throws f \<and> \<not> patient_save_throws f
                \<and> patient_valid q \<and> D (date a) \<noteq> None \<longrightarrow> activated now q'"
      by auto
    then show "\<exists>q'. findPatientById j
                 (snd (updateAppointmentStatus D f now u (Some k)
                         \<lparr>b_status = ''confirmed'', b_noShowReason = r\<rparr> s)) = Some q'
           \<and> (pstatus q \<noteq> ''inactive'' \<longrightarrow> keeps_status q q')
           \<and> (pstatus q = ''inactive'' \<and> \<not> patient_find_throws f \<and> \<not> patient_save_throws f
                \<and> patient_valid q \<and> D (date a) \<noteq> None \<longrightarrow> activated now q')"
      unfolding run by (intro exI [of _ q']) (simp add: findPatientById_def)
    let ?act = "activate_patient f now j ?s1"
    have run2: "snd (confirmAppointment f now u (Some k) s)
               = logActivity (confirmed_activity u ?a (snd ?act)) (fst ?act)"
      using h by (simp add: confirmAppointment_def Let_def split_beta)
    from activate_patient_rule [OF fq, of f now]
    obtain q'' where "findPatientById j (fst ?act) = Some q''"
      and "pstatus q \<noteq> ''inactive'' \<longrightarrow> keeps_status q q''"
      and "pstatus q = ''inactive'' \<and> \<not> patient_find_throws f \<and> \<not> patient_save_throws f
                \<and> patient_valid q \<longrightarrow> activated now q''"
      by auto
    then show "\<exists>q'. findPatientById j (snd (confirmAppointment f now u (Some k) s)) = Some q'
           \<and> (pstatus q \<noteq> ''inactive'' \<longrightarrow> keeps_status q q')
           \<and> (pstatus q = ''inactive'' \<and> \<not> patient_find_throws f \<and> \<not> patient_save_throws f
                \<and> patient_valid q \<longrightarrow> activated now q')"
      unfolding run2 by (intro exI [of _ q'']) (simp add: findPatientById_def)
  qed
  have C: "\<exists>q'. findPatientById j (snd (createAppointment f now u cb s)) = Some q'
           \<and> (pstatus q \<noteq> ''inactive'' \<longrightarrow> keeps_status q q')
           \<and> (pstatus q = ''inactive'' \<and> code (fst (createAppointment f now u cb s)) = 201
                \<and> \<not> patient_find_throws f \<and> \<not> patient_save_throws f
                \<and> patient_valid q \<longrightarrow> activated now q')"
    if h: "cb_patientId cb = Some j \<and> findPatientById j s = Some q"
  proof (cases "code (fst (createAppointment f now u cb s)) = 201")
    case False
    then have "snd (createAppointment f now u cb s) = s"
      by (auto simp: createAppointment_def Let_def split_beta reply_def split: option.splits if_splits)
    then show ?thesis using h False by (auto simp: keeps_status_def)
  next
    case True
    then obtain d hh where ids: "cb_doctorId cb = Some d" "cb_hospitalId cb = Some hh"
      and v: "appointment_valid (body_appointment (next_oid s) j d hh cb)"
      using h
      by (auto simp: createAppointment_def Let_def split_beta reply_def split: option.splits if_splits)
    let ?a = "body_appointment (next_oid s) j d hh cb"
    let ?s1 = "createAppointmentDoc ?a s"
    let ?act = "activate_patient f now j ?s1"
    have run: "snd (createAppointment f now u cb s)
               = logActivity (created_activity u cb ?a) (fst ?act)"
      using h ids v by (simp add: createAppointment_def Let_def split_beta)
    have fq: "findPatientById j ?s1 = Some q"
      using h by (simp add: findPatientById_def)
    from activate_patient_rule [OF fq, of f now]
    obtain q' where "findPatientById j (fst ?act) = Some q'"
      and "pstatus q \<noteq> ''inactive'' \<longrightarrow> keeps_status q q'"
      and "pstatus q = ''inactive'' \<and> \<not> patient_find_throws f \<and> \<not> patient_save_throws f
                \<and> patient_valid q \<longrightarrow> activated now q'"
      by auto
    then show ?thesis
      unfolding run by (intro exI [of _ q']) (simp add: findPatientById_def)
  qed
  show ?thesis
    using A B C checkInPatient_patients [of f u i s] createReport_patients [of D u rb s]
    by blast
qed

lemma ex_passes: "passes_validation (ex_booking em tm) ex_db" if "em \<noteq> []" "tm \<noteq> []"
  using that
  by (simp add: passes_validation_def ex_booking_def truthy_def doctor_available_def
        ex_doctor_def ex_staff_def ex_doctor_account_def)



lemma ex_passes_inactive: "passes_validation (ex_booking em tm) ex_inactive_db"
  if "em \<noteq> []" "tm \<noteq> []"
  using that
  by (simp add: passes_validation_def ex_booking_def truthy_def doctor_available_def
        ex_doctor_def ex_staff_def ex_doctor_account_def)



lemma ex_create_valid:
  "appointment_valid (body_appointment k p d h ex_create)"
  by (simp add: appointment_valid_def body_appointment_def new_appointment_def ex_create_def
        appointment_statuses_def enum_ok_def validOutcomes_def or_default_def truthy_def)



theorem activation_idempotent_witness:
  "(\<exists>p'. findPatientById 20
            (snd (bookAppointment ex_dates 5000 None (ex_booking ''a@x.com'' ''10:00'') ex_db))
          = Some p' \<and> keeps_status ex_patient p')
   \<and> (\<exists>p'. findPatientById 20
            (snd (bookAppointment ex_dates 5000 None (ex_booking ''a@x.com'' ''10:00'')
                    ex_inactive_db)) = Some p' \<and> activated 5000 p')
   \<and> (\<exists>q'. findPatientById 20
            (snd (updateAppointmentStatus ex_dates no_faults 5000 ex_staff (Some 10)
                    \<lparr>b_status = ''confirmed'', b_noShowReason = None\<rparr> ex_inactive_db)) = Some q'
        \<and> activated 5000 q')
   \<and> (\<exists>q'. findPatientById 20
            (snd (confirmAppointment no_faults 5000 ex_staff (Some 10) ex_inactive_db)) = Some q'
        \<and> activated 5000 q')
   \<and> (\<exists>q'. findPatientById 20
            (snd (createAppointment no_faults 5000 ex_staff ex_create ex_inactive_db)) = Some q'
        \<and> activated 5000 q')
   \<and> patients (snd (checkInPatient no_faults ex_staff (Some 10) ex_db)) = patients ex_db
   \<and> patients (snd (createReport ex_dates ex_staff (ex_report ''R1'') ex_db))
     = patients ex_db"
proof -
  let ?b = "ex_booking ''a@x.com'' ''10:00''"
  let ?q = "ex_patient\<lparr>pstatus := ''inactive''\<rparr>"
  note T = activation_idempotent [where D = ex_dates and now = 5000 and f = no_faults
      and u = ex_staff and j = 20 and k = 10 and a = ex_appt and ru = None and b = ?b
      and r = None and cb = ex_create and i = "Some 10" and rb = "ex_report ''R1''"
      and ?u = ex_staff]
  note T1 = T [where s = ex_db and p = ex_patient and q = ex_patient]
  note T2 = T [where s = ex_inactive_db and p = ?q and q = ?q]
  have P1: "passes_validation ?b ex_db \<and> distinct (map pid (patients ex_db))
      \<and> findPatientByEmail (the (pd_email (the (bk_patientDetails ?b)))) ex_db = Some ex_patient"
  proof (intro conjI)
    show "passes_validation ?b ex_db" by (rule ex_passes) simp_all
  qed (simp_all add: findPatientByEmail_def ex_booking_def)
  have P2: "passes_validation ?b ex_inactive_db \<and> distinct (map pid (patients ex_inactive_db))
      \<and> findPatientByEmail (the (pd_email (the (bk_patientDetails ?b)))) ex_inactive_db = Some ?q"
  proof (intro conjI)
    show "passes_validation ?b ex_inactive_db" by (rule ex_passes_inactive) simp_all
  qed (simp_all add: findPatientByEmail_def ex_booking_def)
  have P3: "findAppointmentById 10 ex_inactive_db = Some ex_appt \<and> patientId ex_appt = Some 20
      \<and> findPatientById 20 ex_inactive_db = Some ?q"
    by (simp add: ex_inactive_find_appt findPatientById_def)
  have P4: "cb_patientId ex_create = Some 20 \<and> findPatientById 20 ex_inactive_db = Some ?q"
    by (simp add: ex_create_def findPatientById_def)
  have P5: "code (fst (createAppointment no_faults 5000 ex_staff ex_create ex_inactive_db)) = 201"
    by (simp add: createAppointment_def ex_create_def [THEN arg_cong, of cb_patientId]
          ex_create_def [THEN arg_cong, of cb_doctorId]
          ex_create_def [THEN arg_cong, of cb_hospitalId] ex_create_valid Let_def split_beta)
  have V: "pstatus ?q = ''inactive''" "patient_valid ?q" "\<not> patient_find_throws no_faults"
    "\<not> patient_save_throws no_faults" "ex_dates (date ex_appt) \<noteq> None"
    "pstatus ex_patient \<noteq> ''inactive''" "pid ?q = 20"
    by (simp_all add: no_faults_def ex_dates_def)
  from T1 [THEN conjunct1, rule_format, OF P1]
  have R1: "\<exists>p'. findPatientById 20 (snd (bookAppointment ex_dates 5000 None ?b ex_db)) = Some p'
              \<and> keeps_status ex_patient p'"
    using V by simp
  from T2 [THEN conjunct1, rule_format, OF P2]
  have R2: "\<exists>p'. findPatientById 20 (snd (bookAppointment ex_dates 5000 None ?b ex_inactive_db))
               = Some p' \<and> activated 5000 p'"
    using V by simp
  from T2 [THEN conjunct2, THEN conjunct1, rule_format, OF P3]
  have R3: "(\<exists>q'. findPatientById 20
            (snd (updateAppointmentStatus ex_dates no_faults 5000 ex_staff (Some 10)
                    \<lparr>b_status = ''confirmed'', b_noShowReason = None\<rparr> ex_inactive_db)) = Some q'
        \<and> activated 5000 q')
      \<and> (\<exists>q'. findPatientById 20
            (snd (confirmAppointment no_faults 5000 ex_staff (Some 10) ex_inactive_db)) = Some q'
        \<and> activated 5000 q')"
    using V by simp
  from T2 [THEN conjunct2, THEN conjunct2, THEN conjunct1, rule_format, OF P4]
  have R4: "\<exists>q'. findPatientById 20
            (snd (createAppointment no_faults 5000 ex_staff ex_create ex_inactive_db)) = Some q'
        \<and> activated 5000 q'"
    using V P5 by simp
  from T1 [THEN conjunct2, THEN conjunct2, THEN conjunct2]
  have R5: "patients (snd (checkInPatient no_faults ex_staff (Some 10) ex_db)) = patients ex_db
     \<and> patients (snd (createReport ex_dates ex_staff (ex_report ''R1'') ex_db))
       = patients ex_db"
    by simp
  show ?thesis using R1 R2 R3 R4 R5 by blast
qed

text \<open>The invariant says what the data model asks for: among the appointments that are
  not cancelled, the triples of doctor, date and time are pairwise different.\<close>

lemma find_occupies_None:
  "(find (occupies (doctorId a) (date a) (time a)) xs = None)
   \<longleftrightarrow> (doctorId a, date a, time a)
         \<notin> (\<lambda>a. (doctorId a, date a, time a)) ` {x \<in> set xs. status x \<noteq> ''cancelled''}"
  unfolding find_None_iff occupies_def image_iff
  by force



lemma unique_slots_distinct:
  "unique_slots xs
   \<longleftrightarrow> distinct (map (\<lambda>a. (doctorId a, date a, time a))
                  (filter (\<lambda>a. status a \<noteq> ''cancelled'') xs))"
  by (induction xs) (simp_all add: find_occupies_None)

















text \<open>\<^verbatim>\<open>createAppointment\<close> saves the document of the request with no look at the
  slot: for the slot of the stored pending appointment the call answers 201 and
  leaves two pending appointments in the slot.\<close>

lemma createAppointment_double_booking:
  "unique_slots (appts ex_db)
   \<and> code (fst (createAppointment no_faults 5000 ex_staff ex_create ex_db)) = 201
   \<and> appts (snd (createAppointment no_faults 5000 ex_staff ex_create ex_db))
     = [ex_appt, body_appointment 100 20 1 30 ex_create]
   \<and> \<not> unique_slots (appts (snd (createAppointment no_faults 5000 ex_staff ex_create ex_db)))"
proof -
  have c: "cb_patientId ex_create = Some 20" "cb_doctorId ex_create = Some 1"
    "cb_hospitalId ex_create = Some 30"
    by (simp_all add: ex_create_def)
  have f: "doctorId (body_appointment 100 20 1 30 ex_create) = 1"
    "date (body_appointment 100 20 1 30 ex_create) = ''2024-06-01''"
    "time (body_appointment 100 20 1 30 ex_create) = ''09:00''"
    "status (body_appointment 100 20 1 30 ex_create) = ''pending''"
    by (simp_all add: body_appointment_def new_appointment_def ex_create_def or_default_def
          truthy_def)
  have run: "appts (snd (createAppointment no_faults 5000 ex_staff ex_create ex_db))
     = [ex_appt, body_appointment 100 20 1 30 ex_create]"
    using ex_create_valid [of 100 20 1 30]
    by (simp add: createAppointment_def c Let_def split_beta activate_patient_def
          findPatientById_def no_faults_def)
  have code: "code (fst (createAppointment no_faults 5000 ex_staff ex_create ex_db)) = 201"
    using ex_create_valid [of 100 20 1 30]
    by (simp add: createAppointment_def c Let_def split_beta)
  have "\<not> unique_slots [ex_appt, body_appointment 100 20 1 30 ex_create]"
    using f by (simp add: occupies_def)
  then show ?thesis using run code by simp
qed

text \<open>
  C4 at two failing inputs. The slot of the request is taken. With the e-mail of no
  existing patient, the rejected call leaves a new patient record behind; with the
  e-mail of an inactive patient, the rejected call leaves the patient active with a new
  \<^verbatim>\<open>lastStatusChangeDate\<close>.
\<close>

theorem rejected_booking_mutates_patients:
  "fst (bookAppointment ex_dates 5000 None (ex_booking ''new@x.com'' ''09:00'') ex_db)
     = book_error ''This time slot is already booked''
   \<and> patients (snd (bookAppointment ex_dates 5000 None (ex_booking ''new@x.com'' ''09:00'') ex_db))
     = [ex_patient,
        \<lparr>pid = 100, pname = ''Bob'', email = ''new@x.com'', hospital = Some 30,
         pstatus = ''active'', treatmentDays = 0, lastStatusChangeDate = Some 5000,
         appointments = []\<rparr>]
   \<and> fst (bookAppointment ex_dates 5000 None (ex_booking ''a@x.com'' ''09:00'') ex_inactive_db)
     = book_error ''This time slot is already booked''
   \<and> map pstatus (patients ex_inactive_db) = [''inactive'']
   \<and> map (\<lambda>p. (pstatus p, lastStatusChangeDate p))
       (patients (snd (bookAppointment ex_dates 5000 None (ex_booking ''a@x.com'' ''09:00'')
                         ex_inactive_db)))
     = [(''active'', Some 5000)]"
  by (simp add: bookAppointment_def ex_booking_def truthy_def doctor_available_def
        ex_doctor_def ex_doctor_account_def ex_staff_def book_slot_def book_patient_def
        findPatientByEmail_def createPatientDoc_def savePatient_def occupies_def Let_def
        patient_valid_def ex_patient_def)

theorem rejected_booking_mutates_patients_witness:
  "patients (snd (bookAppointment ex_dates 5000 None (ex_booking ''new@x.com'' ''09:00'') ex_db))
     \<noteq> patients ex_db
   \<and> map (\<lambda>p. (pstatus p, lastStatusChangeDate p))
       (patients (snd (bookAppointment ex_dates 5000 None (ex_booking ''a@x.com'' ''09:00'')
                         ex_inactive_db)))
     \<noteq> map (\<lambda>p. (pstatus p, lastStatusChangeDate p)) (patients ex_inactive_db)"
  using rejected_booking_mutates_patients by simp

end
